theory Spec2Isabelle
  imports Main "HOL-Library.Sublist"
begin

section \<open>RDF terms, quads and datasets\<close>

text \<open>
  The synchronisation engine of solid-client (resource/solidDataset.ts and
  resource/resource.ts) is embedded here. RDF/JS terms are a datatype; a
  \<open>LocalNode\<close> is the blank node that carries an \<open>internal_name\<close>, the
  placeholder of a Thing that has no IRI yet.
\<close>

datatype rdf_term =
    NamedNode string
  | BlankNode string
  | LocalNode string
  | Literal string string
  | DefaultGraph

record quad =
  subject :: rdf_term
  predicate :: rdf_term
  object :: rdf_term
  graph :: rdf_term

record changelog =
  additions :: "quad list"
  deletions :: "quad list"

record resource_info =
  sourceIri :: string
  isRawData :: bool
  contentType :: "string option"
  linkedResources :: "(string \<times> string list) list option"

text \<open>
  A SolidDataset object: the quads it holds (in insertion order) and the two
  optional properties \<open>internal_changeLog\<close> and \<open>internal_resourceInfo\<close> that
  \<open>Object.assign\<close> attaches to it.
\<close>

record dataset_obj =
  quads :: "quad list"
  internal_changeLog :: "changelog option"
  internal_resourceInfo :: "resource_info option"

text \<open>
  Modelled from the spec: the dataset container returned by \<open>dataset()\<close>
  (rdfjs.ts, not among the sources). "Graph: an unordered set of triples;
  insertion order is not semantically significant but is preserved": \<open>add\<close>
  appends a quad that is not yet present, \<open>delete\<close> removes it.
\<close>

definition dataset :: dataset_obj where
  "dataset = \<lparr>quads = [], internal_changeLog = None, internal_resourceInfo = None\<rparr>"

definition dataset_add :: "quad \<Rightarrow> quad list \<Rightarrow> quad list" where
  "dataset_add q qs = (if q \<in> set qs then qs else qs @ [q])"

definition dataset_delete :: "quad \<Rightarrow> quad list \<Rightarrow> quad list" where
  "dataset_delete q qs = removeAll q qs"

text \<open>
  Modelled from the spec: \<open>hasChangelog\<close> and \<open>hasResourceInfo\<close>
  (interfaces.ts, not among the sources), the structural checks for "carries a
  Change Log" and "carries Resource Metadata".
\<close>

definition hasChangelog :: "dataset_obj \<Rightarrow> bool" where
  "hasChangelog d = (internal_changeLog d \<noteq> None)"

definition hasResourceInfo :: "dataset_obj \<Rightarrow> bool" where
  "hasResourceInfo d = (internal_resourceInfo d \<noteq> None)"

text \<open>resource.ts, \<open>getSourceUrl\<close>: the source IRI, or null without resource info.\<close>

definition getSourceUrl :: "dataset_obj \<Rightarrow> string option" where
  "getSourceUrl d =
     (case internal_resourceInfo d of Some ri \<Rightarrow> Some (sourceIri ri) | None \<Rightarrow> None)"

section \<open>The local identity space\<close>

text \<open>
  Modelled from the spec: \<open>isLocalNode\<close>, \<open>resolveLocalIri\<close>,
  \<open>resolveIriForLocalNode\<close> and \<open>resolveIriForLocalNodes\<close> (datatypes.ts, not
  among the sources). "For every triple whose subject or object is a Local
  Identifier, rewrite it to final-location#local-name, leaving Global
  Identifiers untouched."
\<close>

fun isLocalNode :: "rdf_term \<Rightarrow> bool" where
  "isLocalNode (LocalNode n) = True"
| "isLocalNode t = False"

definition resolveLocalIri :: "string \<Rightarrow> string \<Rightarrow> string" where
  "resolveLocalIri name resourceIri = resourceIri @ ''#'' @ name"

fun resolveIriForLocalNode :: "rdf_term \<Rightarrow> string \<Rightarrow> rdf_term" where
  "resolveIriForLocalNode (LocalNode n) resourceIri = NamedNode (resolveLocalIri n resourceIri)"
| "resolveIriForLocalNode t resourceIri = t"

definition resolveIriForLocalNodes :: "quad \<Rightarrow> string \<Rightarrow> quad" where
  "resolveIriForLocalNodes q resourceIri =
     q\<lparr>subject := (if isLocalNode (subject q)
                    then resolveIriForLocalNode (subject q) resourceIri else subject q),
       object := (if isLocalNode (object q)
                   then resolveIriForLocalNode (object q) resourceIri else object q)\<rparr>"

text \<open>
  solidDataset.ts, \<open>getNamedNodeFromLocalNode\<close> and
  \<open>getNamedNodesForLocalNodes\<close>: before serialisation a local node becomes the
  relative IRI \<open>#name\<close>. The callers guard with \<open>isLocalNode\<close>; on any other
  term JavaScript would read an undefined \<open>internal_name\<close>.
\<close>

fun getNamedNodeFromLocalNode :: "rdf_term \<Rightarrow> rdf_term" where
  "getNamedNodeFromLocalNode (LocalNode n) = NamedNode (''#'' @ n)"
| "getNamedNodeFromLocalNode t = NamedNode ''#undefined''"

definition getNamedNodesForLocalNodes :: "quad \<Rightarrow> quad" where
  "getNamedNodesForLocalNodes q =
     q\<lparr>subject := (if isLocalNode (subject q)
                    then getNamedNodeFromLocalNode (subject q) else subject q),
       object := (if isLocalNode (object q)
                   then getNamedNodeFromLocalNode (object q) else object q)\<rparr>"

section \<open>Requests, responses and errors\<close>

text \<open>
  The request mechanism is external: \<open>fetch(url, init)\<close> answers with a response
  or rejects. Strings are lists of 8-bit characters; the characters the
  messages need and an Isabelle string literal cannot hold are named here.
\<close>

definition nl :: string where
  "nl = [CHR 0x0A]"

definition dquote :: string where
  "dquote = [CHR 0x22]"

definition squote :: string where
  "squote = [CHR 0x27]"

definition backtick :: string where
  "backtick = [CHR 0x60]"

record request =
  req_method :: string
  req_headers :: "(string \<times> string) list"
  req_body :: "string option"

record response =
  status :: nat
  statusText :: string
  resp_headers :: "(string \<times> string) list"
  resp_text :: string
  resp_url :: string

text \<open>
  resource.ts, class \<open>FetchError\<close>: the message and the response, with the
  getters \<open>statusCode\<close> and \<open>statusText\<close> reading the response.
\<close>

record fetch_error =
  message :: string
  response :: response

definition statusCode :: "fetch_error \<Rightarrow> nat" where
  "statusCode e = status (response e)"

definition statusText_of_error :: "fetch_error \<Rightarrow> string" where
  "statusText_of_error e = statusText (response e)"

text \<open>
  What an operation can throw: a \<open>FetchError\<close>, a plain \<open>Error\<close>, a
  \<open>TypeError\<close> of the platform, the rejection of \<open>fetch\<close> itself (passed on
  unchanged), and \<open>NoSuchObject\<close> for an address outside the store, which no
  JavaScript reference can be.
\<close>

datatype error =
    FetchError fetch_error
  | Error string
  | TypeError string
  | Rejected string
  | NoSuchObject

text \<open>
  Modelled from the spec: \<open>internal_isUnsuccessfulResponse\<close>
  (resource.internal.ts, not among the sources). "Unsuccessful response: any
  non-2xx status from the store."
\<close>

definition internal_isUnsuccessfulResponse :: "response \<Rightarrow> bool" where
  "internal_isUnsuccessfulResponse r = (\<not> (200 \<le> status r \<and> status r \<le> 299))"

text \<open>
  \<open>Headers.get\<close>: header names are compared without regard to the case of
  ASCII letters; the values of all entries with the name are joined with a
  comma and a space; null when there is none.
\<close>

definition ascii_lower :: "char \<Rightarrow> char" where
  "ascii_lower c =
     (case map_of (zip ''ABCDEFGHIJKLMNOPQRSTUVWXYZ'' ''abcdefghijklmnopqrstuvwxyz'') c of
        Some l \<Rightarrow> l
      | None \<Rightarrow> c)"

definition same_header_name :: "string \<Rightarrow> string \<Rightarrow> bool" where
  "same_header_name a b = (map ascii_lower a = map ascii_lower b)"

fun join_values :: "string list \<Rightarrow> string" where
  "join_values [] = []"
| "join_values [v] = v"
| "join_values (v # w # vs) = v @ '', '' @ join_values (w # vs)"

definition headers_get :: "(string \<times> string) list \<Rightarrow> string \<Rightarrow> string option" where
  "headers_get hs name =
     (case filter (\<lambda>kv. same_header_name (fst kv) name) hs of
        [] \<Rightarrow> None
      | kvs \<Rightarrow> Some (join_values (map snd kvs)))"

text \<open>
  \<open>String.prototype.trim\<close>, \<open>endsWith\<close> and the decimal rendering of a number
  in a template literal. Of the 8-bit characters, \<open>trim\<close> removes TAB, LF, VT,
  FF, CR, the space and the no-break space.
\<close>

definition isWhiteSpace :: "char \<Rightarrow> bool" where
  "isWhiteSpace c =
     (c = CHR 0x09 \<or> c = CHR 0x0A \<or> c = CHR 0x0B \<or> c = CHR 0x0C \<or> c = CHR 0x0D
      \<or> c = CHR 0x20 \<or> c = CHR 0xA0)"

definition trim :: "string \<Rightarrow> string" where
  "trim s = rev (dropWhile isWhiteSpace (rev (dropWhile isWhiteSpace s)))"

definition endsWith :: "string \<Rightarrow> string \<Rightarrow> bool" where
  "endsWith s t = (take (length t) (rev s) = rev t)"

definition digit_char :: "nat \<Rightarrow> char" where
  "digit_char n = char_of (48 + n)"

fun show_nat :: "nat \<Rightarrow> string" where
  "show_nat n = (if n < 10 then [digit_char n] else show_nat (n div 10) @ [digit_char (n mod 10)])"

declare show_nat.simps [simp del]

section \<open>External collaborators\<close>

text \<open>
  The Turtle codec, the response parser, the Thing accessors and renderers, the
  LDP vocabulary and the platform's \<open>URL\<close> class are not part of the engine.
  They are parameters: every theorem below holds for whatever they compute.
  \<open>url_origin u\<close> is \<open>new URL(u).origin\<close> and \<open>url_href r b\<close> is
  \<open>new URL(r, b).href\<close>; \<open>None\<close> is the TypeError of an invalid URL.
\<close>

record thing =
  thing_subject :: rdf_term
  thing_quads :: "quad list"

record env =
  triplesToTurtle :: "quad list \<Rightarrow> string"
  internal_parseResourceInfo :: "response \<Rightarrow> resource_info"
  getThingAll :: "dataset_obj \<Rightarrow> thing list"
  thingAsMarkdown :: "thing \<Rightarrow> string"
  internal_toNode :: "thing \<Rightarrow> rdf_term"
  internal_getReadableValue :: "rdf_term \<Rightarrow> string"
  ldp_Resource :: string
  ldp_BasicContainer :: string
  url_origin :: "string \<Rightarrow> string option"
  url_href :: "string \<Rightarrow> string \<Rightarrow> string option"

section \<open>The store of dataset objects and the network\<close>

text \<open>
  Datasets are JavaScript objects that the engine clones and mutates in place,
  so they live in a store: an address is an index into the list of allocated
  objects, allocation appends. The change log and the resource info are held by
  value: no function of solidDataset.ts writes into them, they are only ever
  replaced as a whole through \<open>Object.assign\<close>.
\<close>

type_synonym addr = nat
type_synonym heap = "dataset_obj list"

definition heap_lookup :: "heap \<Rightarrow> addr \<Rightarrow> dataset_obj option" where
  "heap_lookup h a = (if a < length h then Some (h ! a) else None)"

definition heap_alloc :: "heap \<Rightarrow> dataset_obj \<Rightarrow> addr \<times> heap" where
  "heap_alloc h d = (length h, h @ [d])"

text \<open>
  The state an operation runs in: the store, the requests sent so far (in
  order) and the state of the world behind \<open>fetch\<close>. A fetcher answers a request
  with a response or a rejection, and moves the world on.
\<close>

record 'w state =
  store :: heap
  sent :: "(string \<times> request) list"
  world :: 'w

type_synonym 'w fetcher = "string \<Rightarrow> request \<Rightarrow> 'w \<Rightarrow> (string + response) \<times> 'w"

definition config_fetch ::
  "'w fetcher \<Rightarrow> string \<Rightarrow> request \<Rightarrow> 'w state \<Rightarrow> (error + response) \<times> 'w state" where
  "config_fetch fetch url init s =
     (case fetch url init (world s) of
        (Inl reason, w) \<Rightarrow> (Inl (Rejected reason), s\<lparr>sent := sent s @ [(url, init)], world := w\<rparr>)
      | (Inr r, w) \<Rightarrow> (Inr r, s\<lparr>sent := sent s @ [(url, init)], world := w\<rparr>))"

text \<open>
  Modelled from the spec: \<open>internal_cloneResource\<close> (resource.internal.ts, not
  among the sources; resource.test.ts: "returns a new but equal Dataset").
  "Clone the Graph": a new object with the same quads and the same properties.
\<close>

definition internal_cloneResource :: "addr \<Rightarrow> heap \<Rightarrow> (error + addr) \<times> heap" where
  "internal_cloneResource a h =
     (case heap_lookup h a of
        None \<Rightarrow> (Inl NoSuchObject, h)
      | Some d \<Rightarrow> (case heap_alloc h d of (c, h') \<Rightarrow> (Inr c, h')))"

text \<open>\<open>Object.assign(target, props)\<close>: the target is changed in place.\<close>

definition object_assign :: "addr \<Rightarrow> (dataset_obj \<Rightarrow> dataset_obj) \<Rightarrow> heap \<Rightarrow> heap" where
  "object_assign a props h = (if a < length h then h[a := props (h ! a)] else h)"

definition empty_changeLog :: changelog where
  "empty_changeLog = \<lparr>additions = [], deletions = []\<rparr>"

text \<open>
  Modelled from the spec: \<open>internal_withChangeLog\<close> (thing.internal.ts, not
  among the sources; its result type is \<open>Dataset & WithChangeLog\<close>). A dataset
  that tracks changes is returned as it is; otherwise tracking begins on a
  clone: "attaches empty additions/deletions".
\<close>

definition internal_withChangeLog :: "addr \<Rightarrow> heap \<Rightarrow> (error + addr) \<times> heap" where
  "internal_withChangeLog a h =
     (case heap_lookup h a of
        None \<Rightarrow> (Inl NoSuchObject, h)
      | Some d \<Rightarrow>
          if hasChangelog d then (Inr a, h)
          else (case internal_cloneResource a h of
                  (Inl e, h') \<Rightarrow> (Inl e, h')
                | (Inr c, h') \<Rightarrow>
                    (Inr c, object_assign c (\<lambda>obj. obj\<lparr>internal_changeLog := Some empty_changeLog\<rparr>) h')))"

text \<open>
  solidDataset.ts, \<open>resolveLocalIrisInSolidDataset\<close>: for every quad of the
  snapshot \<open>Array.from(solidDataset)\<close>, delete it from the dataset and add its
  resolved form. The dataset is changed in place and returned. TypeScript
  requires the argument to carry resource info; without it \<open>getSourceUrl\<close> is
  null, which the model reports as a TypeError.
\<close>

fun resolve_each :: "string \<Rightarrow> quad list \<Rightarrow> quad list \<Rightarrow> quad list" where
  "resolve_each resourceIri [] ds = ds"
| "resolve_each resourceIri (u # us) ds =
     resolve_each resourceIri us
       (dataset_add (resolveIriForLocalNodes u resourceIri) (dataset_delete u ds))"

definition resolveLocalIrisInSolidDataset :: "addr \<Rightarrow> heap \<Rightarrow> (error + addr) \<times> heap" where
  "resolveLocalIrisInSolidDataset a h =
     (case heap_lookup h a of
        None \<Rightarrow> (Inl NoSuchObject, h)
      | Some d \<Rightarrow>
          (case getSourceUrl d of
             None \<Rightarrow> (Inl (TypeError ''Invalid URL''), h)
           | Some resourceIri \<Rightarrow>
               (Inr a, h[a := d\<lparr>quads := resolve_each resourceIri (quads d) (quads d)\<rparr>])))"

text \<open>A quad mentions a Local Identifier when its subject or its object is a local node.\<close>

definition hasLocalNode :: "quad \<Rightarrow> bool" where
  "hasLocalNode q = (isLocalNode (subject q) \<or> isLocalNode (object q))"

text \<open>The triple set of the dataset stored at an address.\<close>

definition triples_at :: "heap \<Rightarrow> addr \<Rightarrow> quad set" where
  "triples_at h a = (case heap_lookup h a of Some d \<Rightarrow> set (quads d) | None \<Rightarrow> {})"

section \<open>Diagnostics\<close>

text \<open>
  Modelled from the spec: \<open>isNamedNode\<close> (datatypes.ts) and
  \<open>internal_toIriString\<close> (interfaces.internal.ts), not among the sources: the
  test for a Global Identifier and its IRI. The engine applies
  \<open>internal_toIriString\<close> to named nodes only.
\<close>

fun isNamedNode :: "rdf_term \<Rightarrow> bool" where
  "isNamedNode (NamedNode v) = True"
| "isNamedNode t = False"

fun internal_toIriString :: "rdf_term \<Rightarrow> string" where
  "internal_toIriString (NamedNode v) = v"
| "internal_toIriString (BlankNode v) = v"
| "internal_toIriString (LocalNode v) = v"
| "internal_toIriString (Literal v dt) = v"
| "internal_toIriString DefaultGraph = []"

text \<open>
  solidDataset.ts, \<open>sortChangeLogByThingAndProperty\<close>: the nested record
  \<open>thingUrl \<rightarrow> propertyUrl \<rightarrow> {added, deleted}\<close>, filled from the deletions and
  then from the additions. The records are association lists in insertion
  order, the order \<open>Object.keys\<close> gives for keys that are not array indices.
  The argument is \<open>WithChangeLog & WithResourceInfo\<close>: its source URL and its
  change log are passed.
\<close>

record property_changes =
  added :: "rdf_term list"
  deleted :: "rdf_term list"

fun record_upsert :: "'k \<Rightarrow> 'v \<Rightarrow> ('v \<Rightarrow> 'v) \<Rightarrow> ('k \<times> 'v) list \<Rightarrow> ('k \<times> 'v) list" where
  "record_upsert k dflt f [] = [(k, f dflt)]"
| "record_upsert k dflt f ((k', v) # kvs) =
     (if k = k' then (k', f v) # kvs else (k', v) # record_upsert k dflt f kvs)"

type_synonym thing_changes = "(string \<times> (string \<times> property_changes) list) list"

definition log_deletion :: "string \<Rightarrow> quad \<Rightarrow> thing_changes \<Rightarrow> thing_changes" where
  "log_deletion sourceUrl deletion acc =
     (let subjectNode = (if isLocalNode (subject deletion)
                         then resolveIriForLocalNode (subject deletion) sourceUrl
                         else subject deletion)
      in if \<not> isNamedNode subjectNode \<or> \<not> isNamedNode (predicate deletion) then acc
         else record_upsert (internal_toIriString subjectNode) []
                (record_upsert (internal_toIriString (predicate deletion))
                   \<lparr>added = [], deleted = []\<rparr>
                   (\<lambda>c. c\<lparr>deleted := deleted c @ [object deletion]\<rparr>))
                acc)"

definition log_addition :: "string \<Rightarrow> quad \<Rightarrow> thing_changes \<Rightarrow> thing_changes" where
  "log_addition sourceUrl addition acc =
     (let subjectNode = (if isLocalNode (subject addition)
                         then resolveIriForLocalNode (subject addition) sourceUrl
                         else subject addition)
      in if \<not> isNamedNode subjectNode \<or> \<not> isNamedNode (predicate addition) then acc
         else record_upsert (internal_toIriString subjectNode) []
                (record_upsert (internal_toIriString (predicate addition))
                   \<lparr>added = [], deleted = []\<rparr>
                   (\<lambda>c. c\<lparr>added := added c @ [object addition]\<rparr>))
                acc)"

definition sortChangeLogByThingAndProperty :: "string \<Rightarrow> changelog \<Rightarrow> thing_changes" where
  "sortChangeLogByThingAndProperty sourceUrl cl =
     foldl (\<lambda>acc addition. log_addition sourceUrl addition acc)
       (foldl (\<lambda>acc deletion. log_deletion sourceUrl deletion acc) [] (deletions cl))
       (additions cl)"

text \<open>solidDataset.ts, \<open>changeLogAsMarkdown\<close>.\<close>

definition render_values :: "env \<Rightarrow> rdf_term list \<Rightarrow> string" where
  "render_values env vs = concat (map (\<lambda>v. ''  - '' @ internal_getReadableValue env v @ nl) vs)"

definition render_property :: "env \<Rightarrow> string \<times> property_changes \<Rightarrow> string" where
  "render_property env pc =
     nl @ ''Property: '' @ fst pc @ nl
     @ (if length (deleted (snd pc)) > 0
        then ''- Removed:'' @ nl @ render_values env (deleted (snd pc)) else [])
     @ (if length (added (snd pc)) > 0
        then ''- Added:'' @ nl @ render_values env (added (snd pc)) else [])"

definition render_thing :: "env \<Rightarrow> string \<times> (string \<times> property_changes) list \<Rightarrow> string" where
  "render_thing env tc =
     nl @ ''### Thing: '' @ fst tc @ nl @ concat (map (render_property env) (snd tc))"

definition changeLogAsMarkdown :: "env \<Rightarrow> dataset_obj \<Rightarrow> string" where
  "changeLogAsMarkdown env d =
     (case internal_resourceInfo d of
        None \<Rightarrow>
          ''This is a newly initialized SolidDataset, so there is no source to compare it to.''
      | Some ri \<Rightarrow>
          (let unmodified =
                 ''## Changes compared to '' @ sourceIri ri @ nl @ nl
                 @ ''This SolidDataset has not been modified since it was fetched from ''
                 @ sourceIri ri @ ''.'' @ nl
           in case internal_changeLog d of
                None \<Rightarrow> unmodified
              | Some cl \<Rightarrow>
                  if length (additions cl) = 0 \<and> length (deletions cl) = 0 then unmodified
                  else ''## Changes compared to '' @ sourceIri ri @ nl
                       @ concat (map (render_thing env)
                                   (sortChangeLogByThingAndProperty (sourceIri ri) cl))))"

text \<open>solidDataset.ts, \<open>getReadableChangeLogSummary\<close> and \<open>solidDatasetAsMarkdown\<close>.\<close>

definition getReadableChangeLogSummary :: "env \<Rightarrow> changelog \<Rightarrow> thing \<Rightarrow> string" where
  "getReadableChangeLogSummary env cl t =
     (let subj = internal_toNode env t;
          nrOfAdditions = length (filter (\<lambda>addition. subject addition = subj) (additions cl));
          nrOfDeletions = length (filter (\<lambda>deletion. subject deletion = subj) (deletions cl));
          additionString = (if nrOfAdditions = 1 then ''1 new value added''
                            else show_nat nrOfAdditions @ '' new values added'');
          deletionString = (if nrOfDeletions = 1 then ''1 value removed''
                            else show_nat nrOfDeletions @ '' values removed'')
      in ''('' @ additionString @ '' / '' @ deletionString @ '')'')"

definition solidDatasetAsMarkdown :: "env \<Rightarrow> dataset_obj \<Rightarrow> string" where
  "solidDatasetAsMarkdown env d =
     (let heading = (case internal_resourceInfo d of
                       Some ri \<Rightarrow> ''# SolidDataset: '' @ sourceIri ri @ nl
                     | None \<Rightarrow> ''# SolidDataset (no URL yet)'' @ nl);
          things = getThingAll env d
      in if length things = 0 then heading @ nl @ ''<empty>'' @ nl
         else heading
              @ concat (map (\<lambda>t. nl @ thingAsMarkdown env t
                                 @ (case internal_changeLog d of
                                      Some cl \<Rightarrow> nl @ getReadableChangeLogSummary env cl t @ nl
                                    | None \<Rightarrow> []))
                          things))"

section \<open>Saving a dataset\<close>

text \<open>solidDataset.ts, \<open>isUpdate\<close>; a source IRI is always a string here.\<close>

definition isUpdate :: "dataset_obj \<Rightarrow> string \<Rightarrow> bool" where
  "isUpdate d url =
     (hasChangelog d \<and> hasResourceInfo d
      \<and> (case internal_resourceInfo d of Some ri \<Rightarrow> sourceIri ri = url | None \<Rightarrow> False))"

text \<open>
  solidDataset.ts, \<open>prepareSolidDatasetUpdate\<close>: the SPARQL update. Reading the
  change log of a dataset that has none is a TypeError in JavaScript.
\<close>

definition prepareSolidDatasetUpdate :: "env \<Rightarrow> dataset_obj \<Rightarrow> error + request" where
  "prepareSolidDatasetUpdate env d =
     (case internal_changeLog d of
        None \<Rightarrow> Inl (TypeError ''Cannot read properties of undefined'')
      | Some cl \<Rightarrow>
          (let deleteStatement =
                 (if length (deletions cl) > 0
                  then ''DELETE DATA {''
                       @ trim (triplesToTurtle env (map getNamedNodesForLocalNodes (deletions cl)))
                       @ ''};''
                  else []);
               insertStatement =
                 (if length (additions cl) > 0
                  then ''INSERT DATA {''
                       @ trim (triplesToTurtle env (map getNamedNodesForLocalNodes (additions cl)))
                       @ ''};''
                  else [])
           in Inr \<lparr>req_method = ''PATCH'',
                   req_headers = [(''Content-Type'', ''application/sparql-update'')],
                   req_body = Some (deleteStatement @ '' '' @ insertStatement)\<rparr>))"

text \<open>solidDataset.ts, \<open>prepareSolidDatasetCreation\<close>: the whole dataset, created only.\<close>

definition link_type :: "string \<Rightarrow> string" where
  "link_type iri = ''<'' @ iri @ ''>; rel='' @ dquote @ ''type'' @ dquote"

definition prepareSolidDatasetCreation :: "env \<Rightarrow> dataset_obj \<Rightarrow> request" where
  "prepareSolidDatasetCreation env d =
     \<lparr>req_method = ''PUT'',
      req_headers = [(''Content-Type'', ''text/turtle''),
                     (''If-None-Match'', ''*''),
                     (''Link'', link_type (ldp_Resource env))],
      req_body = Some (triplesToTurtle env (map getNamedNodesForLocalNodes (quads d)))\<rparr>"

text \<open>solidDataset.ts, \<open>saveSolidDatasetAt\<close>.\<close>

definition save_failure_message :: "env \<Rightarrow> string \<Rightarrow> response \<Rightarrow> dataset_obj \<Rightarrow> string" where
  "save_failure_message env url r d =
     ''Storing the Resource at ['' @ url @ ''] failed: ['' @ show_nat (status r) @ ''] [''
     @ statusText r @ ''].'' @ nl @ nl
     @ (if isUpdate d url
        then ''The changes that were sent to the Pod are listed below.'' @ nl @ nl
             @ changeLogAsMarkdown env d
        else ''The SolidDataset that was sent to the Pod is listed below.'' @ nl @ nl
             @ solidDatasetAsMarkdown env d)"

definition store_saved :: "env \<Rightarrow> string \<Rightarrow> response \<Rightarrow> addr \<Rightarrow> heap \<Rightarrow> (error + addr) \<times> heap" where
  "store_saved env url r datasetWithChangelog h =
     (let resourceInfo = (internal_parseResourceInfo env r)\<lparr>sourceIri := url, isRawData := False\<rparr>
      in case internal_cloneResource datasetWithChangelog h of
           (Inl e, h') \<Rightarrow> (Inl e, h')
         | (Inr storedDataset, h') \<Rightarrow>
             resolveLocalIrisInSolidDataset storedDataset
               (object_assign storedDataset
                  (\<lambda>obj. obj\<lparr>internal_changeLog := Some \<lparr>additions = [], deletions = []\<rparr>,
                              internal_resourceInfo := Some resourceInfo\<rparr>)
                  h'))"

definition saveSolidDatasetAt ::
  "env \<Rightarrow> 'w fetcher \<Rightarrow> string \<Rightarrow> addr \<Rightarrow> 'w state \<Rightarrow> (error + addr) \<times> 'w state" where
  "saveSolidDatasetAt env fetch url solidDataset s =
     (case internal_withChangeLog solidDataset (store s) of
        (Inl e, h1) \<Rightarrow> (Inl e, s\<lparr>store := h1\<rparr>)
      | (Inr datasetWithChangelog, h1) \<Rightarrow>
          (case heap_lookup h1 datasetWithChangelog of
             None \<Rightarrow> (Inl NoSuchObject, s\<lparr>store := h1\<rparr>)
           | Some d \<Rightarrow>
               (case (if isUpdate d url then prepareSolidDatasetUpdate env d
                      else Inr (prepareSolidDatasetCreation env d)) of
                  Inl e \<Rightarrow> (Inl e, s\<lparr>store := h1\<rparr>)
                | Inr requestInit \<Rightarrow>
                    (case config_fetch fetch url requestInit (s\<lparr>store := h1\<rparr>) of
                       (Inl e, s2) \<Rightarrow> (Inl e, s2)
                     | (Inr r, s2) \<Rightarrow>
                         if internal_isUnsuccessfulResponse r
                         then (Inl (FetchError \<lparr>message = save_failure_message env url r d,
                                                response = r\<rparr>), s2)
                         else (case store_saved env url r datasetWithChangelog (store s2) of
                                 (res, h3) \<Rightarrow> (res, s2\<lparr>store := h3\<rparr>))))))"

section \<open>Containers\<close>

text \<open>resource.ts, \<open>getResourceInfo\<close>: a HEAD request, parsed.\<close>

definition getResourceInfo ::
  "env \<Rightarrow> 'w fetcher \<Rightarrow> string \<Rightarrow> 'w state \<Rightarrow> (error + resource_info) \<times> 'w state" where
  "getResourceInfo env fetch url s =
     (case config_fetch fetch url \<lparr>req_method = ''HEAD'', req_headers = [], req_body = None\<rparr> s of
        (Inl e, s1) \<Rightarrow> (Inl e, s1)
      | (Inr r, s1) \<Rightarrow>
          if internal_isUnsuccessfulResponse r
          then (Inl (FetchError
                      \<lparr>message = ''Fetching the metadata of the Resource at ['' @ url
                                  @ ''] failed: ['' @ show_nat (status r) @ ''] [''
                                  @ statusText r @ ''].'',
                       response = r\<rparr>), s1)
          else (Inr (internal_parseResourceInfo env r), s1))"

text \<open>
  solidDataset.ts: the error message of Node Solid Server that triggers the
  workaround, and the request \<open>createContainerAt\<close> sends.
\<close>

definition internal_NSS_CREATE_CONTAINER_SPEC_NONCOMPLIANCE_DETECTION_ERROR_MESSAGE :: string where
  "internal_NSS_CREATE_CONTAINER_SPEC_NONCOMPLIANCE_DETECTION_ERROR_MESSAGE =
     ''Can'' @ squote @ ''t write file: PUT not supported on containers, use POST instead''"

definition create_container_failure :: "string \<Rightarrow> response \<Rightarrow> error" where
  "create_container_failure url r =
     FetchError \<lparr>message = ''Creating the empty Container at ['' @ url @ ''] failed: [''
                            @ show_nat (status r) @ ''] ['' @ statusText r @ ''].'',
                 response = r\<rparr>"

definition new_container_dataset :: "env \<Rightarrow> response \<Rightarrow> heap \<Rightarrow> addr \<times> heap" where
  "new_container_dataset env r h =
     heap_alloc h (dataset\<lparr>internal_changeLog := Some \<lparr>additions = [], deletions = []\<rparr>,
                           internal_resourceInfo := Some (internal_parseResourceInfo env r)\<rparr>)"

text \<open>
  solidDataset.ts, \<open>createContainerWithNssWorkaroundAt\<close>: the container must
  not exist yet (a HEAD that fails with 404); a dummy file is put inside it and
  deleted again; the container's metadata is fetched with HEAD. The response to
  the DELETE and the status of the last HEAD are not looked at.
\<close>

definition createContainerWithNssWorkaroundAt ::
  "env \<Rightarrow> 'w fetcher \<Rightarrow> string \<Rightarrow> 'w state \<Rightarrow> (error + addr) \<times> 'w state" where
  "createContainerWithNssWorkaroundAt env fetch url s =
     (case getResourceInfo env fetch url s of
        (Inr existingContainer, s1) \<Rightarrow>
          (Inl (Error (''The Container at ['' @ url
                       @ ''] already exists, and therefore cannot be created again.'')), s1)
      | (Inl e, s1) \<Rightarrow>
          if (case e of FetchError fe \<Rightarrow> statusCode fe \<noteq> 404 | _ \<Rightarrow> True) then (Inl e, s1)
          else
            (let dummyUrl = url @ ''.dummy'' in
             case config_fetch fetch dummyUrl
                    \<lparr>req_method = ''PUT'',
                     req_headers = [(''Accept'', ''text/turtle''), (''Content-Type'', ''text/turtle'')],
                     req_body = None\<rparr> s1 of
               (Inl e2, s2) \<Rightarrow> (Inl e2, s2)
             | (Inr createResponse, s2) \<Rightarrow>
                 if internal_isUnsuccessfulResponse createResponse
                 then (Inl (create_container_failure url createResponse), s2)
                 else
                   (case config_fetch fetch dummyUrl
                          \<lparr>req_method = ''DELETE'', req_headers = [], req_body = None\<rparr> s2 of
                      (Inl e3, s3) \<Rightarrow> (Inl e3, s3)
                    | (Inr deleteResponse, s3) \<Rightarrow>
                        (case config_fetch fetch url
                               \<lparr>req_method = ''HEAD'', req_headers = [], req_body = None\<rparr> s3 of
                           (Inl e4, s4) \<Rightarrow> (Inl e4, s4)
                         | (Inr containerInfoResponse, s4) \<Rightarrow>
                             (case new_container_dataset env containerInfoResponse (store s4) of
                                (a, h) \<Rightarrow> (Inr a, s4\<lparr>store := h\<rparr>))))))"

text \<open>solidDataset.ts, \<open>createContainerAt\<close>.\<close>

definition create_container_request :: "env \<Rightarrow> request" where
  "create_container_request env =
     \<lparr>req_method = ''PUT'',
      req_headers = [(''Accept'', ''text/turtle''),
                     (''Content-Type'', ''text/turtle''),
                     (''If-None-Match'', ''*''),
                     (''Link'', link_type (ldp_BasicContainer env))],
      req_body = None\<rparr>"

definition createContainerAt ::
  "env \<Rightarrow> 'w fetcher \<Rightarrow> string \<Rightarrow> 'w state \<Rightarrow> (error + addr) \<times> 'w state" where
  "createContainerAt env fetch url0 s =
     (let url = (if endsWith url0 ''/'' then url0 else url0 @ ''/'') in
      case config_fetch fetch url (create_container_request env) s of
        (Inl e, s1) \<Rightarrow> (Inl e, s1)
      | (Inr r, s1) \<Rightarrow>
          if internal_isUnsuccessfulResponse r
          then (if status r = 409 \<and> statusText r = ''Conflict''
                   \<and> trim (resp_text r)
                       = internal_NSS_CREATE_CONTAINER_SPEC_NONCOMPLIANCE_DETECTION_ERROR_MESSAGE
                then createContainerWithNssWorkaroundAt env fetch url s1
                else (Inl (create_container_failure url r), s1))
          else (case new_container_dataset env r (store s1) of
                  (a, h) \<Rightarrow> (Inr a, s1\<lparr>store := h\<rparr>)))"

section \<open>Saving into a container\<close>

text \<open>
  solidDataset.ts, \<open>saveSolidDatasetInContainer\<close> and
  \<open>createContainerInContainer\<close>. The new resource's IRI is
  \<open>new URL(locationHeader, new URL(containerUrl).origin).href\<close>. A slug is sent
  when \<open>options.slugSuggestion\<close> is a non-empty string.
\<close>

definition slug_header :: "string option \<Rightarrow> (string \<times> string) list" where
  "slug_header slugSuggestion =
     (case slugSuggestion of
        None \<Rightarrow> []
      | Some slug \<Rightarrow> if slug = [] then [] else [(''slug'', slug)])"

definition location_iri :: "env \<Rightarrow> string \<Rightarrow> string \<Rightarrow> error + string" where
  "location_iri env locationHeader containerUrl =
     (case url_origin env containerUrl of
        None \<Rightarrow> Inl (TypeError ''Invalid URL'')
      | Some origin \<Rightarrow>
          (case url_href env locationHeader origin of
             None \<Rightarrow> Inl (TypeError ''Invalid URL'')
           | Some href \<Rightarrow> Inr href))"

definition saveSolidDatasetInContainer ::
  "env \<Rightarrow> 'w fetcher \<Rightarrow> string \<Rightarrow> addr \<Rightarrow> string option \<Rightarrow> 'w state
     \<Rightarrow> (error + addr) \<times> 'w state" where
  "saveSolidDatasetInContainer env fetch containerUrl solidDataset slugSuggestion s =
     (case heap_lookup (store s) solidDataset of
        None \<Rightarrow> (Inl NoSuchObject, s)
      | Some d \<Rightarrow>
          (let rawTurtle = triplesToTurtle env (map getNamedNodesForLocalNodes (quads d));
               hdrs = [(''Content-Type'', ''text/turtle''), (''Link'', link_type (ldp_Resource env))]
                      @ slug_header slugSuggestion
           in case config_fetch fetch containerUrl
                     \<lparr>req_method = ''POST'', req_headers = hdrs, req_body = Some rawTurtle\<rparr> s of
                (Inl e, s1) \<Rightarrow> (Inl e, s1)
              | (Inr r, s1) \<Rightarrow>
                  if internal_isUnsuccessfulResponse r
                  then (Inl (FetchError
                              \<lparr>message = ''Storing the Resource in the Container at [''
                                          @ containerUrl @ ''] failed: ['' @ show_nat (status r)
                                          @ ''] ['' @ statusText r @ ''].'' @ nl @ nl
                                          @ ''The SolidDataset that was sent to the Pod is listed below.''
                                          @ nl @ nl @ solidDatasetAsMarkdown env d,
                               response = r\<rparr>), s1)
                  else
                    (case headers_get (resp_headers r) ''Location'' of
                       None \<Rightarrow>
                         (Inl (Error ''Could not determine the location of the newly saved SolidDataset.''),
                          s1)
                     | Some locationHeader \<Rightarrow>
                         (case location_iri env locationHeader containerUrl of
                            Inl e \<Rightarrow> (Inl e, s1)
                          | Inr resourceIri \<Rightarrow>
                              (case internal_cloneResource solidDataset (store s1) of
                                 (Inl e, h) \<Rightarrow> (Inl e, s1\<lparr>store := h\<rparr>)
                               | (Inr c, h) \<Rightarrow>
                                   (case resolveLocalIrisInSolidDataset c
                                           (object_assign c
                                              (\<lambda>obj. obj\<lparr>internal_resourceInfo :=
                                                             Some \<lparr>sourceIri = resourceIri,
                                                                   isRawData = False,
                                                                   contentType = None,
                                                                   linkedResources = None\<rparr>\<rparr>)
                                              h) of
                                      (res, h') \<Rightarrow> (res, s1\<lparr>store := h'\<rparr>)))))))"

definition createContainerInContainer ::
  "env \<Rightarrow> 'w fetcher \<Rightarrow> string \<Rightarrow> string option \<Rightarrow> 'w state \<Rightarrow> (error + addr) \<times> 'w state" where
  "createContainerInContainer env fetch containerUrl slugSuggestion s =
     (let hdrs = [(''Content-Type'', ''text/turtle''),
                  (''Link'', link_type (ldp_BasicContainer env))]
                 @ slug_header slugSuggestion
      in case config_fetch fetch containerUrl
                \<lparr>req_method = ''POST'', req_headers = hdrs, req_body = None\<rparr> s of
           (Inl e, s1) \<Rightarrow> (Inl e, s1)
         | (Inr r, s1) \<Rightarrow>
             if internal_isUnsuccessfulResponse r
             then (Inl (FetchError
                         \<lparr>message = ''Creating an empty Container in the Container at [''
                                     @ containerUrl @ ''] failed: ['' @ show_nat (status r)
                                     @ ''] ['' @ statusText r @ ''].'',
                          response = r\<rparr>), s1)
             else
               (case headers_get (resp_headers r) ''Location'' of
                  None \<Rightarrow>
                    (Inl (Error ''Could not determine the location of the newly created Container.''),
                     s1)
                | Some locationHeader \<Rightarrow>
                    (case location_iri env locationHeader containerUrl of
                       Inl e \<Rightarrow> (Inl e, s1)
                     | Inr resourceIri \<Rightarrow>
                         (case heap_alloc (store s1)
                                 (dataset\<lparr>internal_resourceInfo :=
                                            Some \<lparr>sourceIri = resourceIri, isRawData = False,
                                                  contentType = None, linkedResources = None\<rparr>\<rparr>) of
                            (a, h) \<Rightarrow> (Inr a, s1\<lparr>store := h\<rparr>)))))"

section \<open>Deleting a container\<close>

text \<open>
  resource.ts, \<open>isContainer\<close>, and solidDataset.ts, \<open>deleteContainer\<close>. The
  argument is a URL or an object with resource info; of the object only its
  resource info is read.
\<close>

datatype url_or_resource = Url string | WithResourceInfo resource_info

definition target_url :: "url_or_resource \<Rightarrow> string" where
  "target_url container =
     (case container of Url u \<Rightarrow> u | WithResourceInfo ri \<Rightarrow> sourceIri ri)"

definition isContainer :: "url_or_resource \<Rightarrow> bool" where
  "isContainer resource = endsWith (target_url resource) ''/''"

definition deleteContainer ::
  "'w fetcher \<Rightarrow> url_or_resource \<Rightarrow> 'w state \<Rightarrow> (error + unit) \<times> 'w state" where
  "deleteContainer fetch container s =
     (let url = target_url container in
      if \<not> isContainer container
      then (Inl (Error (''You'' @ squote @ ''re trying to delete the Container at ['' @ url
                        @ ''], but Container URLs should end in a '' @ backtick @ ''/'' @ backtick
                        @ ''. Are you sure this is a Container?'')), s)
      else
        (case config_fetch fetch url
                \<lparr>req_method = ''DELETE'', req_headers = [], req_body = None\<rparr> s of
           (Inl e, s1) \<Rightarrow> (Inl e, s1)
         | (Inr r, s1) \<Rightarrow>
             if internal_isUnsuccessfulResponse r
             then (Inl (FetchError
                         \<lparr>message = ''Deleting the Container at ['' @ url @ ''] failed: [''
                                     @ show_nat (status r) @ ''] ['' @ statusText r @ ''].'',
                          response = r\<rparr>), s1)
             else (Inr (), s1)))"

section \<open>Reference collaborators and sample data\<close>

text \<open>
  Concrete collaborators, used only to run the engine on sample inputs: a
  line-per-triple serialiser, a response parser that keeps the final URL and
  the content type, Things grouped by subject, and URL resolution for plain
  hierarchical URLs (scheme, authority, path; no dot segments, query or
  fragment), on which it agrees with the platform's \<open>URL\<close> class.
\<close>

fun term_text :: "rdf_term \<Rightarrow> string" where
  "term_text (NamedNode v) = ''<'' @ v @ ''>''"
| "term_text (BlankNode v) = ''_:'' @ v"
| "term_text (LocalNode v) = ''_:'' @ v"
| "term_text (Literal v dt) = dquote @ v @ dquote"
| "term_text DefaultGraph = []"

definition ref_triplesToTurtle :: "quad list \<Rightarrow> string" where
  "ref_triplesToTurtle qs =
     concat (map (\<lambda>q. term_text (subject q) @ '' '' @ term_text (predicate q) @ '' ''
                       @ term_text (object q) @ '' .'' @ nl) qs)"

definition ref_parseResourceInfo :: "response \<Rightarrow> resource_info" where
  "ref_parseResourceInfo r =
     \<lparr>sourceIri = resp_url r,
      isRawData = (headers_get (resp_headers r) ''Content-Type'' \<noteq> Some ''text/turtle''),
      contentType = headers_get (resp_headers r) ''Content-Type'',
      linkedResources = Some []\<rparr>"

definition ref_getThingAll :: "dataset_obj \<Rightarrow> thing list" where
  "ref_getThingAll d =
     map (\<lambda>s. \<lparr>thing_subject = s, thing_quads = filter (\<lambda>q. subject q = s) (quads d)\<rparr>)
       (remdups (map subject (quads d)))"

definition ref_thingAsMarkdown :: "thing \<Rightarrow> string" where
  "ref_thingAsMarkdown t = ''## Thing: '' @ internal_toIriString (thing_subject t) @ nl"

fun scheme_split :: "string \<Rightarrow> string \<Rightarrow> (string \<times> string) option" where
  "scheme_split acc [] = None"
| "scheme_split acc (c # cs) =
     (if c = CHR '':'' \<and> take 2 cs = ''//'' then Some (rev acc, drop 2 cs)
      else scheme_split (c # acc) cs)"

definition ref_url_origin :: "string \<Rightarrow> string option" where
  "ref_url_origin u =
     (case scheme_split [] u of
        None \<Rightarrow> None
      | Some (scheme, rest) \<Rightarrow> Some (scheme @ ''://'' @ takeWhile (\<lambda>c. c \<noteq> CHR ''/'') rest))"

definition ref_url_href :: "string \<Rightarrow> string \<Rightarrow> string option" where
  "ref_url_href r base =
     (if scheme_split [] r \<noteq> None then Some r
      else (case scheme_split [] base of
              None \<Rightarrow> None
            | Some (scheme, rest) \<Rightarrow>
                (let origin = scheme @ ''://'' @ takeWhile (\<lambda>c. c \<noteq> CHR ''/'') rest;
                     path = dropWhile (\<lambda>c. c \<noteq> CHR ''/'') rest;
                     dir = (if path = [] then ''/''
                            else rev (dropWhile (\<lambda>c. c \<noteq> CHR ''/'') (rev path)))
                 in if take 1 r = ''/'' then Some (origin @ r) else Some (origin @ dir @ r))))"

definition ref_env :: env where
  "ref_env =
     \<lparr>triplesToTurtle = ref_triplesToTurtle,
      internal_parseResourceInfo = ref_parseResourceInfo,
      getThingAll = ref_getThingAll,
      thingAsMarkdown = ref_thingAsMarkdown,
      internal_toNode = thing_subject,
      internal_getReadableValue = term_text,
      ldp_Resource = ''http://www.w3.org/ns/ldp#Resource'',
      ldp_BasicContainer = ''http://www.w3.org/ns/ldp#BasicContainer'',
      url_origin = ref_url_origin,
      url_href = ref_url_href\<rparr>"

text \<open>A fetcher that answers from a script of responses and rejects once it is used up.\<close>

definition scripted_fetch :: "(response list) fetcher" where
  "scripted_fetch url init w =
     (case w of [] \<Rightarrow> (Inl ''Failed to fetch'', []) | r # rs \<Rightarrow> (Inr r, rs))"

text \<open>
  A store that looks at the request: it answers a POST with the response it
  holds and anything else with 405.
\<close>

definition post_only_fetch :: "response fetcher" where
  "post_only_fetch url init w =
     (if req_method init = ''POST'' then (Inr w, w)
      else (Inr \<lparr>status = 405, statusText = ''Method Not Allowed'', resp_headers = [],
                 resp_text = [], resp_url = url\<rparr>, w))"

definition reply :: "nat \<Rightarrow> string \<Rightarrow> (string \<times> string) list \<Rightarrow> string \<Rightarrow> string \<Rightarrow> response" where
  "reply code text hs body url =
     \<lparr>status = code, statusText = text, resp_headers = hs, resp_text = body, resp_url = url\<rparr>"

definition start :: "heap \<Rightarrow> response list \<Rightarrow> (response list) state" where
  "start h script = \<lparr>store = h, sent = [], world = script\<rparr>"

definition doc_url :: string where
  "doc_url = ''https://x/doc''"

definition title_quad :: "string \<Rightarrow> quad" where
  "title_quad v =
     \<lparr>subject = NamedNode ''https://x/doc'',
      predicate = NamedNode ''http://purl.org/dc/terms/title'',
      object = Literal v ''http://www.w3.org/2001/XMLSchema#string'',
      graph = DefaultGraph\<rparr>"

definition doc_info :: resource_info where
  "doc_info =
     \<lparr>sourceIri = ''https://x/doc'', isRawData = False,
      contentType = Some ''text/turtle'', linkedResources = Some []\<rparr>"

text \<open>
  The samples: a dataset as \<open>getSolidDataset\<close> returns it (resource info, no
  change log); the same dataset after the title "A" was replaced by "B"; and a
  new dataset that links a local node.
\<close>

definition fetched_doc :: dataset_obj where
  "fetched_doc =
     \<lparr>quads = [title_quad ''A''], internal_changeLog = None,
      internal_resourceInfo = Some doc_info\<rparr>"

definition edited_doc :: dataset_obj where
  "edited_doc =
     \<lparr>quads = [title_quad ''B''],
      internal_changeLog = Some \<lparr>additions = [title_quad ''B''], deletions = [title_quad ''A'']\<rparr>,
      internal_resourceInfo = Some doc_info\<rparr>"

definition local_quad :: quad where
  "local_quad =
     \<lparr>subject = LocalNode ''1'',
      predicate = NamedNode ''http://purl.org/dc/terms/title'',
      object = Literal ''A'' ''http://www.w3.org/2001/XMLSchema#string'',
      graph = DefaultGraph\<rparr>"

definition new_doc :: dataset_obj where
  "new_doc = \<lparr>quads = [local_quad], internal_changeLog = None, internal_resourceInfo = None\<rparr>"

definition unresolved_doc :: dataset_obj where
  "unresolved_doc =
     \<lparr>quads = [local_quad], internal_changeLog = None, internal_resourceInfo = Some doc_info\<rparr>"

definition ok_response :: response where
  "ok_response = reply 200 ''OK'' [] [] ''https://x/doc''"

definition forbidden_response :: response where
  "forbidden_response = reply 403 ''Forbidden'' [] [] ''https://x/doc''"

definition container_url :: string where
  "container_url = ''https://x.pod/a/b/''"

definition created_response :: "string \<Rightarrow> response" where
  "created_response loc = reply 201 ''Created'' [(''location'', loc)] [] ''https://x.pod/a/b/''"

definition conflict_response :: "string \<Rightarrow> response" where
  "conflict_response body = reply 409 ''Conflict'' [] body ''https://x.pod/c/''"

definition not_found_response :: response where
  "not_found_response = reply 404 ''Not Found'' [] [] ''https://x.pod/c/''"

definition container_response :: response where
  "container_response = reply 200 ''OK'' [] [] ''https://x.pod/c/''"

section \<open>What a save sends and stores\<close>

text \<open>
  The dataset whose address \<open>internal_withChangeLog\<close> returns, the store after
  that call, and the object a successful save stores for it.
\<close>

definition tracked :: "dataset_obj \<Rightarrow> dataset_obj" where
  "tracked d = (if hasChangelog d then d else d\<lparr>internal_changeLog := Some empty_changeLog\<rparr>)"

definition tracked_store :: "heap \<Rightarrow> dataset_obj \<Rightarrow> heap" where
  "tracked_store h d = (if hasChangelog d then h else h @ [tracked d])"

definition saved_obj :: "env \<Rightarrow> string \<Rightarrow> response \<Rightarrow> dataset_obj \<Rightarrow> dataset_obj" where
  "saved_obj env url r d =
     d\<lparr>quads := resolve_each url (quads d) (quads d),
       internal_changeLog := Some \<lparr>additions = [], deletions = []\<rparr>,
       internal_resourceInfo :=
         Some ((internal_parseResourceInfo env r)\<lparr>sourceIri := url, isRawData := False\<rparr>)\<rparr>"

section \<open>What creating a container sends\<close>

text \<open>
  The URL \<open>createContainerAt\<close> works with, the signature of the Node Solid
  Server error, and the four requests of the workaround.
\<close>

definition container_location :: "string \<Rightarrow> string" where
  "container_location url = (if endsWith url ''/'' then url else url @ ''/'')"

definition nss_signature :: "response \<Rightarrow> bool" where
  "nss_signature r =
     (status r = 409 \<and> statusText r = ''Conflict''
      \<and> trim (resp_text r) = internal_NSS_CREATE_CONTAINER_SPEC_NONCOMPLIANCE_DETECTION_ERROR_MESSAGE)"

definition workaround_requests :: "string \<Rightarrow> (string \<times> request) list" where
  "workaround_requests url =
     [(url, \<lparr>req_method = ''HEAD'', req_headers = [], req_body = None\<rparr>),
      (url @ ''.dummy'',
       \<lparr>req_method = ''PUT'',
        req_headers = [(''Accept'', ''text/turtle''), (''Content-Type'', ''text/turtle'')],
        req_body = None\<rparr>),
      (url @ ''.dummy'', \<lparr>req_method = ''DELETE'', req_headers = [], req_body = None\<rparr>),
      (url, \<lparr>req_method = ''HEAD'', req_headers = [], req_body = None\<rparr>)]"

section \<open>What the change log rendering lists\<close>





datatype change_kind = Removed | Added








section \<open>Resolving local identifiers\<close>

lemma resolveIriForLocalNode_not_local:
  "\<not> isLocalNode (if isLocalNode t then resolveIriForLocalNode t iri else t)"
  by (cases t) simp_all

lemma resolveIriForLocalNodes_no_local:
  "\<not> hasLocalNode (resolveIriForLocalNodes q iri)"
  using resolveIriForLocalNode_not_local [of "subject q" iri]
        resolveIriForLocalNode_not_local [of "object q" iri]
  by (simp add: hasLocalNode_def resolveIriForLocalNodes_def)

lemma resolveIriForLocalNodes_fixed:
  "\<not> hasLocalNode q \<Longrightarrow> resolveIriForLocalNodes q iri = q"
  by (simp add: hasLocalNode_def resolveIriForLocalNodes_def)

lemma resolveIriForLocalNodes_idem:
  "resolveIriForLocalNodes (resolveIriForLocalNodes q iri) iri = resolveIriForLocalNodes q iri"
  by (rule resolveIriForLocalNodes_fixed) (rule resolveIriForLocalNodes_no_local)

lemma set_dataset_add: "set (dataset_add q qs) = insert q (set qs)"
  by (auto simp: dataset_add_def)

lemma set_dataset_delete: "set (dataset_delete q qs) = set qs - {q}"
  by (simp add: dataset_delete_def)

text \<open>
  The loop replaces every quad of the snapshot by its resolved form; quads of
  the dataset outside the snapshot stay.
\<close>

lemma set_resolve_each:
  "set (resolve_each iri us ds) =
     (\<lambda>q. resolveIriForLocalNodes q iri) ` set us \<union> (set ds - set us)"
proof (induction us arbitrary: ds)
  case Nil
  then show ?case by simp
next
  case (Cons u us)
  let ?r = "\<lambda>q. resolveIriForLocalNodes q iri"
  have step: "set (dataset_add (?r u) (dataset_delete u ds)) = insert (?r u) (set ds - {u})"
    by (simp add: set_dataset_add set_dataset_delete)
  have "?r u \<in> set us \<Longrightarrow> ?r u \<in> ?r ` set us"
    using resolveIriForLocalNodes_idem [of u iri] by (metis imageI)
  then show ?case
    by (auto simp: Cons.IH step)
qed

lemma set_resolve_each_self:
  "set (resolve_each iri qs qs) = (\<lambda>q. resolveIriForLocalNodes q iri) ` set qs"
  by (simp add: set_resolve_each)

lemma resolveLocalIris_result:
  assumes "heap_lookup h a = Some d" and "internal_resourceInfo d = Some ri"
  shows "resolveLocalIrisInSolidDataset a h =
           (Inr a, h[a := d\<lparr>quads := resolve_each (sourceIri ri) (quads d) (quads d)\<rparr>])"
  using assms by (simp add: resolveLocalIrisInSolidDataset_def getSourceUrl_def)

lemma heap_lookup_update:
  "heap_lookup h a = Some d \<Longrightarrow> heap_lookup (h[a := d']) a = Some d'"
  by (auto simp: heap_lookup_def split: if_splits)

text \<open>
  C4: resolving Local Identifiers is idempotent. For a dataset in the store
  that carries resource info, \<open>resolveLocalIrisInSolidDataset\<close> returns the
  dataset both times, the second application leaves the triple set as the first
  one made it, and on a dataset without local nodes the first application
  already leaves the triple set unchanged.
\<close>

theorem resolveLocalIris_idempotent:
  assumes "heap_lookup h a = Some d" and "hasResourceInfo d"
  shows "fst (resolveLocalIrisInSolidDataset a h) = Inr a
       \<and> fst (resolveLocalIrisInSolidDataset a (snd (resolveLocalIrisInSolidDataset a h))) = Inr a
       \<and> triples_at (snd (resolveLocalIrisInSolidDataset a
                             (snd (resolveLocalIrisInSolidDataset a h)))) a
           = triples_at (snd (resolveLocalIrisInSolidDataset a h)) a
       \<and> ((\<forall>q \<in> set (quads d). \<not> hasLocalNode q) \<longrightarrow>
             triples_at (snd (resolveLocalIrisInSolidDataset a h)) a = triples_at h a)"
proof -
  from assms(2) obtain ri where ri: "internal_resourceInfo d = Some ri"
    by (auto simp: hasResourceInfo_def)
  let ?iri = "sourceIri ri"
  let ?r = "\<lambda>q. resolveIriForLocalNodes q ?iri"
  let ?d1 = "d\<lparr>quads := resolve_each ?iri (quads d) (quads d)\<rparr>"
  let ?h1 = "h[a := ?d1]"
  let ?d2 = "?d1\<lparr>quads := resolve_each ?iri (quads ?d1) (quads ?d1)\<rparr>"
  let ?h2 = "?h1[a := ?d2]"
  have r1: "resolveLocalIrisInSolidDataset a h = (Inr a, ?h1)"
    using assms(1) ri by (rule resolveLocalIris_result)
  have l1: "heap_lookup ?h1 a = Some ?d1"
    using assms(1) by (rule heap_lookup_update)
  have ri1: "internal_resourceInfo ?d1 = Some ri"
    using ri by simp
  have r2: "resolveLocalIrisInSolidDataset a ?h1 = (Inr a, ?h2)"
    using l1 ri1 by (rule resolveLocalIris_result)
  have l2: "heap_lookup ?h2 a = Some ?d2"
    using l1 by (rule heap_lookup_update)
  have t1: "triples_at ?h1 a = ?r ` set (quads d)"
    using l1 by (simp add: triples_at_def set_resolve_each_self)
  have t2: "triples_at ?h2 a = ?r ` (?r ` set (quads d))"
    using l2 by (simp add: triples_at_def set_resolve_each_self)
  have idem: "?r ` (?r ` set (quads d)) = ?r ` set (quads d)"
    by (simp add: image_image resolveIriForLocalNodes_idem)
  have same: "(\<forall>q \<in> set (quads d). \<not> hasLocalNode q) \<longrightarrow> triples_at ?h1 a = triples_at h a"
  proof
    assume "\<forall>q \<in> set (quads d). \<not> hasLocalNode q"
    then have "?r ` set (quads d) = set (quads d)"
      by (simp add: resolveIriForLocalNodes_fixed)
    then show "triples_at ?h1 a = triples_at h a"
      using t1 assms(1) by (simp add: triples_at_def)
  qed
  show ?thesis
    using same t1 t2 idem by (simp only: r1 r2 fst_conv snd_conv)
qed

text \<open>
  The theorem at a dataset with a local node and at a dataset without one.
\<close>

theorem resolveLocalIris_idempotent_witness:
  "triples_at (snd (resolveLocalIrisInSolidDataset 0
                      (snd (resolveLocalIrisInSolidDataset 0 [unresolved_doc])))) 0
     = triples_at (snd (resolveLocalIrisInSolidDataset 0 [unresolved_doc])) 0
   \<and> triples_at (snd (resolveLocalIrisInSolidDataset 0 [fetched_doc])) 0
     = triples_at [fetched_doc] 0"
proof -
  have a: "heap_lookup [unresolved_doc] 0 = Some unresolved_doc"
    by (simp add: heap_lookup_def)
  have b: "hasResourceInfo unresolved_doc"
    by (simp add: hasResourceInfo_def unresolved_doc_def)
  have c: "heap_lookup [fetched_doc] 0 = Some fetched_doc"
    by (simp add: heap_lookup_def)
  have d: "hasResourceInfo fetched_doc"
    by (simp add: hasResourceInfo_def fetched_doc_def)
  have e: "\<forall>q \<in> set (quads fetched_doc). \<not> hasLocalNode q"
    by (simp add: fetched_doc_def title_quad_def hasLocalNode_def)
  show ?thesis
    using resolveLocalIris_idempotent [OF a b] resolveLocalIris_idempotent [OF c d] e
    by blast
qed

section \<open>Properties of saving\<close>

lemma heap_lookup_Some: "heap_lookup h a = Some d \<longleftrightarrow> a < length h \<and> h ! a = d"
  by (auto simp: heap_lookup_def)

lemma heap_lookup_append_new: "heap_lookup (h @ [d]) (length h) = Some d"
  by (simp add: heap_lookup_def)

lemma withChangeLog_result:
  assumes "heap_lookup h a = Some d"
  shows "internal_withChangeLog a h =
           (Inr (if hasChangelog d then a else length h), tracked_store h d)"
  using assms
  by (auto simp: internal_withChangeLog_def internal_cloneResource_def heap_alloc_def
        object_assign_def tracked_store_def tracked_def)

lemma heap_lookup_tracked:
  assumes "heap_lookup h a = Some d"
  shows "heap_lookup (tracked_store h d) (if hasChangelog d then a else length h) = Some (tracked d)"
  using assms by (auto simp: tracked_store_def tracked_def heap_lookup_def nth_append split: if_splits)

lemma hasChangelog_tracked: "hasChangelog (tracked d)"
  by (simp add: tracked_def hasChangelog_def)

lemma save_request_defined:
  "\<exists>init. (if isUpdate (tracked d) url then prepareSolidDatasetUpdate env (tracked d)
            else Inr (prepareSolidDatasetCreation env (tracked d))) = Inr init"
  using hasChangelog_tracked [of d]
  by (auto simp: prepareSolidDatasetUpdate_def hasChangelog_def Let_def)

lemma store_saved_result:
  assumes "heap_lookup h a = Some d"
  shows "store_saved env url r a h = (Inr (length h), h @ [saved_obj env url r d])"
  using assms
  by (simp add: store_saved_def internal_cloneResource_def heap_alloc_def object_assign_def
        resolveLocalIrisInSolidDataset_def heap_lookup_def getSourceUrl_def saved_obj_def Let_def)

lemma save_unfold:
  assumes look: "heap_lookup (store s) a = Some d"
      and req: "(if isUpdate (tracked d) url then prepareSolidDatasetUpdate env (tracked d)
                 else Inr (prepareSolidDatasetCreation env (tracked d))) = Inr init"
      and ans: "fetch url init (world s) = (ans, w)"
  shows "saveSolidDatasetAt env fetch url a s =
           (case ans of
              Inl reason \<Rightarrow>
                (Inl (Rejected reason),
                 s\<lparr>store := tracked_store (store s) d, sent := sent s @ [(url, init)], world := w\<rparr>)
            | Inr r \<Rightarrow>
                if internal_isUnsuccessfulResponse r
                then (Inl (FetchError \<lparr>message = save_failure_message env url r (tracked d),
                                       response = r\<rparr>),
                      s\<lparr>store := tracked_store (store s) d, sent := sent s @ [(url, init)],
                        world := w\<rparr>)
                else (Inr (length (tracked_store (store s) d)),
                      s\<lparr>store := tracked_store (store s) d @ [saved_obj env url r (tracked d)],
                        sent := sent s @ [(url, init)], world := w\<rparr>))"
proof -
  let ?a1 = "if hasChangelog d then a else length (store s)"
  let ?h1 = "tracked_store (store s) d"
  have w: "internal_withChangeLog a (store s) = (Inr ?a1, ?h1)"
    using look by (rule withChangeLog_result)
  have l1: "heap_lookup ?h1 ?a1 = Some (tracked d)"
    using look by (rule heap_lookup_tracked)
  have st: "\<And>r. store_saved env url r ?a1 ?h1 = (Inr (length ?h1), ?h1 @ [saved_obj env url r (tracked d)])"
    using l1 by (rule store_saved_result)
  show ?thesis
    unfolding saveSolidDatasetAt_def w
    by (cases ans) (simp_all add: l1 req config_fetch_def ans st)
qed

lemma save_request_patch:
  assumes "getSourceUrl d = Some url"
  shows "(if isUpdate (tracked d) url then prepareSolidDatasetUpdate env (tracked d)
          else Inr (prepareSolidDatasetCreation env (tracked d)))
         = prepareSolidDatasetUpdate env (tracked d)"
  using assms hasChangelog_tracked [of d]
  by (auto simp: isUpdate_def getSourceUrl_def hasResourceInfo_def tracked_def
        split: option.splits)

lemma save_request_put:
  assumes "getSourceUrl d \<noteq> Some url"
  shows "(if isUpdate (tracked d) url then prepareSolidDatasetUpdate env (tracked d)
          else Inr (prepareSolidDatasetCreation env (tracked d)))
         = Inr (prepareSolidDatasetCreation env (tracked d))"
  using assms
  by (auto simp: isUpdate_def getSourceUrl_def hasResourceInfo_def tracked_def
        split: option.splits)

lemma save_sent:
  assumes look: "heap_lookup (store s) a = Some d"
      and req: "(if isUpdate (tracked d) url then prepareSolidDatasetUpdate env (tracked d)
                 else Inr (prepareSolidDatasetCreation env (tracked d))) = Inr init"
  shows "sent (snd (saveSolidDatasetAt env fetch url a s)) = sent s @ [(url, init)]"
proof -
  obtain ans w where ans: "fetch url init (world s) = (ans, w)"
    by (cases "fetch url init (world s)")
  show ?thesis
    using save_unfold [where fetch = fetch and s = s and url = url and init = init, OF look req ans]
    by (cases ans) simp_all
qed

lemma quads_tracked: "quads (tracked d) = quads d"
  by (simp add: tracked_def)

lemma isUpdate_tracked: "isUpdate (tracked d) url \<longleftrightarrow> getSourceUrl d = Some url"
  using hasChangelog_tracked [of d]
  by (auto simp: isUpdate_def getSourceUrl_def hasResourceInfo_def tracked_def
        split: option.splits)



lemma tracked_with_changelog: "internal_changeLog d = Some cl \<Longrightarrow> tracked d = d"
  by (simp add: tracked_def hasChangelog_def)

lemma getNamedNodesForLocalNodes_no_local: "\<not> hasLocalNode (getNamedNodesForLocalNodes q)"
proof -
  have "\<And>t. \<not> isLocalNode (if isLocalNode t then getNamedNodeFromLocalNode t else t)"
    subgoal for t by (cases t) simp_all
    done
  then show ?thesis
    by (simp add: hasLocalNode_def getNamedNodesForLocalNodes_def)
qed

lemma patch_request:
  assumes "getSourceUrl d = Some url" and "internal_changeLog d = Some cl"
  shows "(if isUpdate (tracked d) url then prepareSolidDatasetUpdate env (tracked d)
          else Inr (prepareSolidDatasetCreation env (tracked d)))
         = Inr \<lparr>req_method = ''PATCH'',
                req_headers = [(''Content-Type'', ''application/sparql-update'')],
                req_body = Some
                  ((if deletions cl = [] then []
                    else ''DELETE DATA {''
                         @ trim (triplesToTurtle env (map getNamedNodesForLocalNodes (deletions cl)))
                         @ ''};'')
                   @ '' ''
                   @ (if additions cl = [] then []
                      else ''INSERT DATA {''
                           @ trim (triplesToTurtle env (map getNamedNodesForLocalNodes (additions cl)))
                           @ ''};''))\<rparr>"
proof -
  have t: "tracked d = d"
    using assms(2) by (rule tracked_with_changelog)
  show ?thesis
    unfolding save_request_patch [OF assms(1)]
    by (simp add: t prepareSolidDatasetUpdate_def assms(2))
qed

lemma fetched_doc_request:
  "(if isUpdate (tracked fetched_doc) doc_url
    then prepareSolidDatasetUpdate ref_env (tracked fetched_doc)
    else Inr (prepareSolidDatasetCreation ref_env (tracked fetched_doc)))
   = Inr \<lparr>req_method = ''PATCH'',
          req_headers = [(''Content-Type'', ''application/sparql-update'')],
          req_body = Some '' ''\<rparr>"
  by (simp add: isUpdate_def tracked_def hasChangelog_def hasResourceInfo_def fetched_doc_def
        doc_info_def doc_url_def prepareSolidDatasetUpdate_def empty_changeLog_def)

lemma save_invalid:
  assumes "heap_lookup (store s) a = None"
  shows "saveSolidDatasetAt env fetch url a s = (Inl NoSuchObject, s)"
  using assms by (simp add: saveSolidDatasetAt_def internal_withChangeLog_def)

lemma prefix_tracked_store: "prefix h (tracked_store h d)"
  by (simp add: tracked_store_def)

lemma length_tracked_store: "length h \<le> length (tracked_store h d)"
  by (simp add: tracked_store_def)

lemma getSourceUrl_saved_obj: "getSourceUrl (saved_obj env url r d) = Some url"
  by (simp add: getSourceUrl_def saved_obj_def)

lemma changeLog_saved_obj:
  "internal_changeLog (saved_obj env url r d) = Some \<lparr>additions = [], deletions = []\<rparr>"
  by (simp add: saved_obj_def)

lemma quads_saved_obj:
  "set (quads (saved_obj env url r (tracked d)))
     = (\<lambda>q. resolveIriForLocalNodes q url) ` set (quads d)"
  by (simp add: saved_obj_def set_resolve_each_self quads_tracked)

lemma heap_lookup_prefix:
  assumes "prefix h h'" and "heap_lookup h a = Some d"
  shows "heap_lookup h' a = Some d"
  using assms by (auto simp: prefix_def heap_lookup_def nth_append split: if_splits)

lemma save_frame_valid:
  assumes look: "heap_lookup (store s) a = Some d"
  shows "prefix (store s) (store (snd (saveSolidDatasetAt env fetch url a s)))
       \<and> (\<forall>a'. fst (saveSolidDatasetAt env fetch url a s) = Inr a' \<longrightarrow>
              length (store s) \<le> a'
            \<and> (\<exists>r. heap_lookup (store (snd (saveSolidDatasetAt env fetch url a s))) a'
                      = Some (saved_obj env url r (tracked d))))"
proof -
  from save_request_defined [of d url env] obtain init where
    req: "(if isUpdate (tracked d) url then prepareSolidDatasetUpdate env (tracked d)
           else Inr (prepareSolidDatasetCreation env (tracked d))) = Inr init" ..
  obtain ans w where ans: "fetch url init (world s) = (ans, w)"
    by (cases "fetch url init (world s)")
  note u = save_unfold [where fetch = fetch and s = s and url = url and init = init,
                        OF look req ans]
  show ?thesis
  proof (cases ans)
    case (Inl reason)
    then show ?thesis using u by (simp add: prefix_tracked_store)
  next
    case (Inr r)
    show ?thesis
    proof (cases "internal_isUnsuccessfulResponse r")
      case True
      then show ?thesis using u Inr by (simp add: prefix_tracked_store)
    next
      case False
      have "prefix (store s) (tracked_store (store s) d @ [saved_obj env url r (tracked d)])"
        using prefix_tracked_store [of "store s" d] by (rule prefix_prefix)
      moreover have "heap_lookup (tracked_store (store s) d @ [saved_obj env url r (tracked d)])
                       (length (tracked_store (store s) d)) = Some (saved_obj env url r (tracked d))"
        by (rule heap_lookup_append_new)
      ultimately show ?thesis
        using u Inr False length_tracked_store [of "store s" d] by auto
    qed
  qed
qed

lemma save_returns:
  assumes look: "heap_lookup (store s) a = Some d"
      and snt: "sent (snd (saveSolidDatasetAt env fetch url a s)) = sent s @ [(url, init)]"
      and ans: "fst (fetch url init (world s)) = Inr r"
      and ok: "\<not> internal_isUnsuccessfulResponse r"
  shows "fst (saveSolidDatasetAt env fetch url a s) = Inr (length (tracked_store (store s) d))"
proof -
  from save_request_defined [of d url env] obtain init' where
    req: "(if isUpdate (tracked d) url then prepareSolidDatasetUpdate env (tracked d)
           else Inr (prepareSolidDatasetCreation env (tracked d))) = Inr init'" ..
  have "init' = init"
    using save_sent [OF look req, of fetch] snt by simp
  with req have req': "(if isUpdate (tracked d) url then prepareSolidDatasetUpdate env (tracked d)
           else Inr (prepareSolidDatasetCreation env (tracked d))) = Inr init" by simp
  obtain w where ans': "fetch url init (world s) = (Inr r, w)"
    using ans by (cases "fetch url init (world s)") simp
  show ?thesis
    using save_unfold [where fetch = fetch and s = s and url = url and init = init,
                       OF look req' ans'] ok
    by simp
qed

text \<open>
  C1, as amended: the save of a dataset in the store sends exactly one request
  to the target URL. It is a PATCH, built by \<open>prepareSolidDatasetUpdate\<close> from
  the change log (an empty one when the dataset has none), if and only if the
  dataset carries resource info whose source IRI is the target URL; in every
  other case it is a PUT of the whole serialised dataset. Whether the dataset
  passed in carries a change log does not enter the decision.
\<close>

theorem saveSolidDatasetAt_mode:
  assumes "heap_lookup (store s) a = Some d"
  shows "\<exists>init. sent (snd (saveSolidDatasetAt env fetch url a s)) = sent s @ [(url, init)]
           \<and> (req_method init = ''PATCH'' \<longleftrightarrow> getSourceUrl d = Some url)
           \<and> (req_method init = ''PUT'' \<longleftrightarrow> getSourceUrl d \<noteq> Some url)
           \<and> (getSourceUrl d = Some url \<longrightarrow>
                 prepareSolidDatasetUpdate env (tracked d) = Inr init)
           \<and> (getSourceUrl d \<noteq> Some url \<longrightarrow>
                 init = prepareSolidDatasetCreation env d
                 \<and> req_body init
                     = Some (triplesToTurtle env (map getNamedNodesForLocalNodes (quads d))))"
proof (cases "getSourceUrl d = Some url")
  case True
  from save_request_defined [of d url env] obtain init where
    req: "(if isUpdate (tracked d) url then prepareSolidDatasetUpdate env (tracked d)
           else Inr (prepareSolidDatasetCreation env (tracked d))) = Inr init" ..
  have upd: "prepareSolidDatasetUpdate env (tracked d) = Inr init"
    using req save_request_patch [OF True, of env] by simp
  then have m: "req_method init = ''PATCH''"
    by (auto simp: prepareSolidDatasetUpdate_def Let_def split: option.splits)
  show ?thesis
    using save_sent [OF assms req, of fetch] True upd m by auto
next
  case False
  let ?init = "prepareSolidDatasetCreation env (tracked d)"
  have req: "(if isUpdate (tracked d) url then prepareSolidDatasetUpdate env (tracked d)
              else Inr (prepareSolidDatasetCreation env (tracked d))) = Inr ?init"
    using False by (rule save_request_put)
  have same: "?init = prepareSolidDatasetCreation env d"
    by (simp add: prepareSolidDatasetCreation_def quads_tracked)
  have m: "req_method ?init = ''PUT''"
    by (simp add: prepareSolidDatasetCreation_def)
  have b: "req_body ?init = Some (triplesToTurtle env (map getNamedNodesForLocalNodes (quads d)))"
    by (simp add: prepareSolidDatasetCreation_def quads_tracked)
  show ?thesis
    using save_sent [OF assms req, of fetch] False same m b by auto
qed

text \<open>The theorem at the edited sample dataset: one PATCH.\<close>

theorem saveSolidDatasetAt_mode_witness:
  "\<exists>init. sent (snd (saveSolidDatasetAt ref_env scripted_fetch doc_url 0
                        (start [edited_doc] [ok_response])))
            = [(doc_url, init)]
         \<and> req_method init = ''PATCH''"
proof -
  have a: "heap_lookup (store (start [edited_doc] [ok_response])) 0 = Some edited_doc"
    by (simp add: heap_lookup_def start_def)
  have b: "getSourceUrl edited_doc = Some doc_url"
    by (simp add: getSourceUrl_def edited_doc_def doc_info_def doc_url_def)
  have c: "sent (start [edited_doc] [ok_response]) = []"
    by (simp add: start_def)
  show ?thesis
    using saveSolidDatasetAt_mode [OF a, of ref_env scripted_fetch doc_url] b c
    by auto
qed

text \<open>
  C1 as stated fails: the dataset \<open>fetched_doc\<close> has resource info for the
  target URL and no change log, and its save is a PATCH.
\<close>

theorem saveSolidDatasetAt_mode_counterexample:
  "sent (snd (saveSolidDatasetAt ref_env scripted_fetch doc_url 0
                (start [fetched_doc] [ok_response])))
     = [(doc_url, \<lparr>req_method = ''PATCH'',
                   req_headers = [(''Content-Type'', ''application/sparql-update'')],
                   req_body = Some '' ''\<rparr>)]
   \<and> \<not> (hasResourceInfo fetched_doc \<and> getSourceUrl fetched_doc = Some doc_url
        \<and> hasChangelog fetched_doc)"
proof -
  have a: "heap_lookup (store (start [fetched_doc] [ok_response])) 0 = Some fetched_doc"
    by (simp add: heap_lookup_def start_def)
  have c: "sent (start [fetched_doc] [ok_response]) = []"
    by (simp add: start_def)
  have "\<not> hasChangelog fetched_doc"
    by (simp add: hasChangelog_def fetched_doc_def)
  then show ?thesis
    using save_sent [OF a fetched_doc_request, of scripted_fetch] c by simp
qed

text \<open>
  C2: for a dataset whose source IRI is the target URL and that has a change
  log, the one request sent is a PATCH whose body is the deletion clause over
  all deletions, a space, and the insertion clause over all additions; a
  clause is left out when its list is empty; every quad goes through
  \<open>getNamedNodesForLocalNodes\<close> before it is serialised, which turns a local
  node \<open>n\<close> into the named node \<open>#n\<close> and leaves no local node. With one
  deletion and one addition the body is one DELETE DATA clause and one INSERT
  DATA clause for these two quads.
\<close>

theorem saveSolidDatasetAt_patch_body:
  assumes "heap_lookup (store s) a = Some d"
      and "getSourceUrl d = Some url"
      and "internal_changeLog d = Some cl"
  shows "sent (snd (saveSolidDatasetAt env fetch url a s))
           = sent s @
             [(url, \<lparr>req_method = ''PATCH'',
                     req_headers = [(''Content-Type'', ''application/sparql-update'')],
                     req_body = Some
                       ((if deletions cl = [] then []
                         else ''DELETE DATA {''
                              @ trim (triplesToTurtle env
                                        (map getNamedNodesForLocalNodes (deletions cl)))
                              @ ''};'')
                        @ '' ''
                        @ (if additions cl = [] then []
                           else ''INSERT DATA {''
                                @ trim (triplesToTurtle env
                                          (map getNamedNodesForLocalNodes (additions cl)))
                                @ ''};''))\<rparr>)]
       \<and> (\<forall>q. \<not> hasLocalNode (getNamedNodesForLocalNodes q))
       \<and> (\<forall>q n. subject q = LocalNode n \<longrightarrow>
                  subject (getNamedNodesForLocalNodes q) = NamedNode (''#'' @ n))
       \<and> (\<forall>q n. object q = LocalNode n \<longrightarrow>
                  object (getNamedNodesForLocalNodes q) = NamedNode (''#'' @ n))
       \<and> (\<forall>qa qb. deletions cl = [qa] \<and> additions cl = [qb] \<longrightarrow>
             map (req_body \<circ> snd) (sent (snd (saveSolidDatasetAt env fetch url a s)))
               = map (req_body \<circ> snd) (sent s) @
                 [Some (''DELETE DATA {''
                        @ trim (triplesToTurtle env [getNamedNodesForLocalNodes qa])
                        @ ''}; INSERT DATA {''
                        @ trim (triplesToTurtle env [getNamedNodesForLocalNodes qb])
                        @ ''};'')])"
proof -
  note snt = save_sent [OF assms(1) patch_request [OF assms(2) assms(3), of env], of fetch]
  have loc: "\<forall>q. \<not> hasLocalNode (getNamedNodesForLocalNodes q)"
    by (simp add: getNamedNodesForLocalNodes_no_local)
  have subj: "\<forall>q n. subject q = LocalNode n \<longrightarrow>
                  subject (getNamedNodesForLocalNodes q) = NamedNode (''#'' @ n)"
    by (simp add: getNamedNodesForLocalNodes_def)
  have obj: "\<forall>q n. object q = LocalNode n \<longrightarrow>
                  object (getNamedNodesForLocalNodes q) = NamedNode (''#'' @ n)"
    by (simp add: getNamedNodesForLocalNodes_def)
  show ?thesis
    using loc subj obj by (simp add: snt)
qed

text \<open>
  Scenario A: the title "A" was removed and the title "B" added; the change
  log of the sample holds what the spec's change tracking leaves.
\<close>

theorem saveSolidDatasetAt_patch_body_witness:
  "sent (snd (saveSolidDatasetAt ref_env scripted_fetch doc_url 0
                (start [edited_doc] [ok_response])))
     = [(doc_url,
         \<lparr>req_method = ''PATCH'',
          req_headers = [(''Content-Type'', ''application/sparql-update'')],
          req_body = Some
            (''DELETE DATA {<https://x/doc> <http://purl.org/dc/terms/title> '' @ dquote @ ''A''
             @ dquote @ '' .}; INSERT DATA {<https://x/doc> <http://purl.org/dc/terms/title> ''
             @ dquote @ ''B'' @ dquote @ '' .};'')\<rparr>)]"
proof -
  let ?s = "start [edited_doc] [ok_response]"
  have a: "heap_lookup (store ?s) 0 = Some edited_doc"
    by (simp add: heap_lookup_def start_def)
  have b: "getSourceUrl edited_doc = Some doc_url"
    by (simp add: getSourceUrl_def edited_doc_def doc_info_def doc_url_def)
  have c: "internal_changeLog edited_doc
             = Some \<lparr>additions = [title_quad ''B''], deletions = [title_quad ''A'']\<rparr>"
    by (simp add: edited_doc_def)
  have t: "\<And>v. trim (triplesToTurtle ref_env [getNamedNodesForLocalNodes (title_quad v)])
             = ''<https://x/doc> <http://purl.org/dc/terms/title> '' @ dquote @ v @ dquote @ '' .''"
    by (simp add: ref_env_def ref_triplesToTurtle_def getNamedNodesForLocalNodes_def
          title_quad_def trim_def isWhiteSpace_def nl_def dquote_def)
  show ?thesis
    using saveSolidDatasetAt_patch_body [OF a b c, of ref_env scripted_fetch]
    by (simp add: t start_def)
qed

text \<open>
  C3: \<open>saveSolidDatasetAt\<close> changes no object that was in the store before the
  call, whatever the outcome, so the dataset passed in keeps its quads, its
  resource info and its change log. A returned dataset is a new object, other
  than the one passed in, whose source IRI is the target URL and whose change
  log is empty; and a dataset is returned whenever the address is valid and the
  response to the request is successful.
\<close>

theorem saveSolidDatasetAt_no_mutation:
  "prefix (store s) (store (snd (saveSolidDatasetAt env fetch url a s)))
   \<and> heap_lookup (store (snd (saveSolidDatasetAt env fetch url a s))) a = heap_lookup (store s) a
   \<and> (\<forall>a'. fst (saveSolidDatasetAt env fetch url a s) = Inr a' \<longrightarrow>
          a' \<noteq> a \<and> length (store s) \<le> a'
        \<and> (\<exists>d d'. heap_lookup (store s) a = Some d
                \<and> heap_lookup (store (snd (saveSolidDatasetAt env fetch url a s))) a' = Some d'
                \<and> getSourceUrl d' = Some url
                \<and> internal_changeLog d' = Some \<lparr>additions = [], deletions = []\<rparr>
                \<and> set (quads d') = (\<lambda>q. resolveIriForLocalNodes q url) ` set (quads d)))
   \<and> (\<forall>d init r.
          heap_lookup (store s) a = Some d
          \<and> sent (snd (saveSolidDatasetAt env fetch url a s)) = sent s @ [(url, init)]
          \<and> fst (fetch url init (world s)) = Inr r
          \<and> \<not> internal_isUnsuccessfulResponse r
          \<longrightarrow> (\<exists>a'. fst (saveSolidDatasetAt env fetch url a s) = Inr a'))"
proof (cases "heap_lookup (store s) a")
  case None
  then show ?thesis by (simp add: save_invalid)
next
  case (Some d)
  note f = save_frame_valid [OF Some, of env fetch url]
  have valid: "a < length (store s)"
    using Some by (simp add: heap_lookup_Some)
  have same: "heap_lookup (store (snd (saveSolidDatasetAt env fetch url a s))) a
                = heap_lookup (store s) a"
    using f Some heap_lookup_prefix by metis
  have ret: "\<forall>d init r.
          heap_lookup (store s) a = Some d
          \<and> sent (snd (saveSolidDatasetAt env fetch url a s)) = sent s @ [(url, init)]
          \<and> fst (fetch url init (world s)) = Inr r
          \<and> \<not> internal_isUnsuccessfulResponse r
          \<longrightarrow> (\<exists>a'. fst (saveSolidDatasetAt env fetch url a s) = Inr a')"
    using save_returns by blast
  have new: "\<forall>a'. fst (saveSolidDatasetAt env fetch url a s) = Inr a' \<longrightarrow>
          a' \<noteq> a \<and> length (store s) \<le> a'
        \<and> (\<exists>d d'. heap_lookup (store s) a = Some d
                \<and> heap_lookup (store (snd (saveSolidDatasetAt env fetch url a s))) a' = Some d'
                \<and> getSourceUrl d' = Some url
                \<and> internal_changeLog d' = Some \<lparr>additions = [], deletions = []\<rparr>
                \<and> set (quads d') = (\<lambda>q. resolveIriForLocalNodes q url) ` set (quads d))"
    using f valid Some getSourceUrl_saved_obj changeLog_saved_obj quads_saved_obj by fastforce
  show ?thesis
    using f same new ret by (intro conjI) simp_all
qed

text \<open>The theorem at the edited sample dataset and a 200 response.\<close>

theorem saveSolidDatasetAt_no_mutation_witness:
  "fst (saveSolidDatasetAt ref_env scripted_fetch doc_url 0 (start [edited_doc] [ok_response]))
     = Inr 1
   \<and> heap_lookup (store (snd (saveSolidDatasetAt ref_env scripted_fetch doc_url 0
                                 (start [edited_doc] [ok_response])))) 0
     = Some edited_doc
   \<and> (\<exists>d'. heap_lookup (store (snd (saveSolidDatasetAt ref_env scripted_fetch doc_url 0
                                        (start [edited_doc] [ok_response])))) 1 = Some d'
          \<and> getSourceUrl d' = Some doc_url
          \<and> internal_changeLog d' = Some \<lparr>additions = [], deletions = []\<rparr>)"
proof -
  let ?s = "start [edited_doc] [ok_response]"
  have a: "heap_lookup (store ?s) 0 = Some edited_doc"
    by (simp add: heap_lookup_def start_def)
  have b: "getSourceUrl edited_doc = Some doc_url"
    by (simp add: getSourceUrl_def edited_doc_def doc_info_def doc_url_def)
  obtain init where req: "(if isUpdate (tracked edited_doc) doc_url
            then prepareSolidDatasetUpdate ref_env (tracked edited_doc)
            else Inr (prepareSolidDatasetCreation ref_env (tracked edited_doc))) = Inr init"
    using save_request_defined by blast
  have snt: "sent (snd (saveSolidDatasetAt ref_env scripted_fetch doc_url 0 ?s))
               = sent ?s @ [(doc_url, init)]"
    using a req by (rule save_sent)
  have ans: "fst (scripted_fetch doc_url init (world ?s)) = Inr ok_response"
    by (simp add: scripted_fetch_def start_def)
  have ok: "\<not> internal_isUnsuccessfulResponse ok_response"
    by (simp add: internal_isUnsuccessfulResponse_def ok_response_def reply_def)
  have r: "fst (saveSolidDatasetAt ref_env scripted_fetch doc_url 0 ?s) = Inr 1"
    using save_returns [OF a snt ans ok]
    by (simp add: tracked_store_def hasChangelog_def edited_doc_def start_def)
  show ?thesis
    using saveSolidDatasetAt_no_mutation [of ?s ref_env scripted_fetch doc_url 0] r a
    by auto
qed



































lemma tracked_changeLog: "\<exists>cl. internal_changeLog (tracked d) = Some cl"
  using hasChangelog_tracked [of d] by (auto simp: hasChangelog_def)










text \<open>
  C10: a dataset whose source IRI is the target URL and whose change log is
  absent or empty is saved by one PATCH whose body is a single space, with
  neither clause; no PUT is sent. \<open>internal_withChangeLog\<close> returns a dataset
  with an empty change log, for which \<open>isUpdate\<close> holds.
\<close>

theorem saveSolidDatasetAt_unchanged_patch:
  assumes look: "heap_lookup (store s) a = Some d"
      and src: "getSourceUrl d = Some url"
      and cl: "internal_changeLog d = None
               \<or> internal_changeLog d = Some \<lparr>additions = [], deletions = []\<rparr>"
  shows "sent (snd (saveSolidDatasetAt env fetch url a s))
           = sent s @ [(url, \<lparr>req_method = ''PATCH'',
                               req_headers = [(''Content-Type'', ''application/sparql-update'')],
                               req_body = Some '' ''\<rparr>)]
       \<and> list_all isWhiteSpace '' ''
       \<and> (\<exists>a1 d1. fst (internal_withChangeLog a (store s)) = Inr a1
              \<and> heap_lookup (snd (internal_withChangeLog a (store s))) a1 = Some d1
              \<and> internal_changeLog d1 = Some \<lparr>additions = [], deletions = []\<rparr>
              \<and> isUpdate d1 url)"
proof -
  have tcl: "internal_changeLog (tracked d) = Some \<lparr>additions = [], deletions = []\<rparr>"
    using cl by (auto simp: tracked_def hasChangelog_def empty_changeLog_def)
  have upd: "isUpdate (tracked d) url"
    using src by (simp add: isUpdate_tracked)
  have req: "(if isUpdate (tracked d) url then prepareSolidDatasetUpdate env (tracked d)
              else Inr (prepareSolidDatasetCreation env (tracked d)))
             = Inr \<lparr>req_method = ''PATCH'',
                    req_headers = [(''Content-Type'', ''application/sparql-update'')],
                    req_body = Some '' ''\<rparr>"
    using upd by (simp add: prepareSolidDatasetUpdate_def tcl)
  have ws: "list_all isWhiteSpace '' ''"
    by (simp add: isWhiteSpace_def)
  have w: "internal_withChangeLog a (store s)
             = (Inr (if hasChangelog d then a else length (store s)), tracked_store (store s) d)"
    using look by (rule withChangeLog_result)
  have l: "heap_lookup (tracked_store (store s) d) (if hasChangelog d then a else length (store s))
             = Some (tracked d)"
    using look by (rule heap_lookup_tracked)
  show ?thesis
    using save_sent [OF look req, of fetch] ws w l tcl upd by auto
qed

text \<open>The theorem at the sample dataset as fetched, which has no change log.\<close>

theorem saveSolidDatasetAt_unchanged_patch_witness:
  "sent (snd (saveSolidDatasetAt ref_env scripted_fetch doc_url 0
                (start [fetched_doc] [ok_response])))
     = [(doc_url, \<lparr>req_method = ''PATCH'',
                   req_headers = [(''Content-Type'', ''application/sparql-update'')],
                   req_body = Some '' ''\<rparr>)]"
proof -
  let ?s = "start [fetched_doc] [ok_response]"
  have a: "heap_lookup (store ?s) 0 = Some fetched_doc"
    by (simp add: heap_lookup_def start_def)
  have b: "getSourceUrl fetched_doc = Some doc_url"
    by (simp add: getSourceUrl_def fetched_doc_def doc_info_def doc_url_def)
  have c: "internal_changeLog fetched_doc = None
           \<or> internal_changeLog fetched_doc = Some \<lparr>additions = [], deletions = []\<rparr>"
    by (simp add: fetched_doc_def)
  show ?thesis
    using saveSolidDatasetAt_unchanged_patch [OF a b c, of ref_env scripted_fetch]
    by (simp add: start_def)
qed

section \<open>Properties of the container operations\<close>

lemma config_fetch_result:
  assumes "fetch url init (world s) = (ans, w)"
  shows "config_fetch fetch url init s =
           (case ans of Inl reason \<Rightarrow> Inl (Rejected reason) | Inr r \<Rightarrow> Inr r,
            s\<lparr>sent := sent s @ [(url, init)], world := w\<rparr>)"
  using assms by (cases ans) (simp_all add: config_fetch_def)

lemma config_fetch_sent:
  "sent (snd (config_fetch fetch url init s)) = sent s @ [(url, init)]"
  by (cases "fetch url init (world s)") (auto simp: config_fetch_def split: sum.splits)

lemma config_fetch_store:
  "store (snd (config_fetch fetch url init s)) = store s"
  by (cases "fetch url init (world s)") (auto simp: config_fetch_def split: sum.splits)

lemma getResourceInfo_sent:
  "sent (snd (getResourceInfo env fetch url s))
     = sent s @ [(url, \<lparr>req_method = ''HEAD'', req_headers = [], req_body = None\<rparr>)]"
proof -
  let ?i = "\<lparr>req_method = ''HEAD'', req_headers = [], req_body = None\<rparr>"
  obtain res s1 where c: "config_fetch fetch url ?i s = (res, s1)"
    by (cases "config_fetch fetch url ?i s")
  have "sent s1 = sent s @ [(url, ?i)]"
    using config_fetch_sent [of fetch url ?i s] c by simp
  then show ?thesis
    unfolding getResourceInfo_def c by (cases res) simp_all
qed

lemma workaround_sent:
  "\<exists>xs. sent (snd (createContainerWithNssWorkaroundAt env fetch url s)) = sent s @ xs
        \<and> xs \<noteq> [] \<and> prefix xs (workaround_requests url)"
proof -
  let ?h = "\<lparr>req_method = ''HEAD'', req_headers = [], req_body = None\<rparr>"
  let ?p = "\<lparr>req_method = ''PUT'',
             req_headers = [(''Accept'', ''text/turtle''), (''Content-Type'', ''text/turtle'')],
             req_body = None\<rparr>"
  let ?d = "\<lparr>req_method = ''DELETE'', req_headers = [], req_body = None\<rparr>"
  let ?du = "url @ ''.dummy''"
  obtain g s1 where g: "getResourceInfo env fetch url s = (g, s1)"
    by (cases "getResourceInfo env fetch url s")
  have s1: "sent s1 = sent s @ [(url, ?h)]"
    using getResourceInfo_sent [of env fetch url s] g by simp
  obtain c2 s2 where c2: "config_fetch fetch ?du ?p s1 = (c2, s2)"
    by (cases "config_fetch fetch ?du ?p s1")
  have s2: "sent s2 = sent s @ [(url, ?h), (?du, ?p)]"
    using config_fetch_sent [of fetch ?du ?p s1] c2 s1 by simp
  obtain c3 s3 where c3: "config_fetch fetch ?du ?d s2 = (c3, s3)"
    by (cases "config_fetch fetch ?du ?d s2")
  have s3: "sent s3 = sent s @ [(url, ?h), (?du, ?p), (?du, ?d)]"
    using config_fetch_sent [of fetch ?du ?d s2] c3 s2 by simp
  obtain c4 s4 where c4: "config_fetch fetch url ?h s3 = (c4, s4)"
    by (cases "config_fetch fetch url ?h s3")
  have s4: "sent s4 = sent s @ [(url, ?h), (?du, ?p), (?du, ?d), (url, ?h)]"
    using config_fetch_sent [of fetch url ?h s3] c4 s3 by simp
  have "sent (snd (createContainerWithNssWorkaroundAt env fetch url s))
          \<in> {sent s1, sent s2, sent s3, sent s4}"
    unfolding createContainerWithNssWorkaroundAt_def g
    by (auto simp: Let_def c2 c3 c4 split: sum.splits prod.splits error.splits)
  then show ?thesis
    unfolding s1 s2 s3 s4 by (auto simp: workaround_requests_def)
qed

lemma endsWith_slash_appended: "endsWith (url @ ''/'') ''/''"
  by (simp add: endsWith_def)

lemma endsWith_container_location: "endsWith (container_location url) ''/''"
  by (simp add: container_location_def endsWith_slash_appended)

lemma createContainerAt_unfold:
  assumes "fetch (container_location url) (create_container_request env) (world s) = (ans, w)"
  shows "createContainerAt env fetch url s =
           (case ans of
              Inl reason \<Rightarrow>
                (Inl (Rejected reason),
                 s\<lparr>sent := sent s @ [(container_location url, create_container_request env)],
                   world := w\<rparr>)
            | Inr r \<Rightarrow>
                if internal_isUnsuccessfulResponse r
                then (if nss_signature r
                      then createContainerWithNssWorkaroundAt env fetch (container_location url)
                             (s\<lparr>sent := sent s @ [(container_location url,
                                                     create_container_request env)],
                               world := w\<rparr>)
                      else (Inl (create_container_failure (container_location url) r),
                            s\<lparr>sent := sent s @ [(container_location url,
                                                    create_container_request env)],
                              world := w\<rparr>))
                else (Inr (length (store s)),
                      s\<lparr>store := store s @
                          [dataset\<lparr>internal_changeLog := Some \<lparr>additions = [], deletions = []\<rparr>,
                                   internal_resourceInfo :=
                                     Some (internal_parseResourceInfo env r)\<rparr>],
                        sent := sent s @ [(container_location url, create_container_request env)],
                        world := w\<rparr>))"
  unfolding createContainerAt_def container_location_def [symmetric] Let_def
            config_fetch_result [where fetch = fetch, OF assms]
  by (cases ans)
     (simp_all add: nss_signature_def new_container_dataset_def heap_alloc_def)

lemma createContainerAt_sent:
  "\<exists>rest. sent (snd (createContainerAt env fetch url s))
            = sent s @ (container_location url, create_container_request env) # rest
         \<and> prefix rest (workaround_requests (container_location url))"
proof -
  let ?u = "container_location url"
  let ?c = "create_container_request env"
  obtain ans w where a: "fetch ?u ?c (world s) = (ans, w)"
    by (cases "fetch ?u ?c (world s)")
  note u = createContainerAt_unfold [where fetch = fetch, OF a]
  let ?s1 = "s\<lparr>sent := sent s @ [(?u, ?c)], world := w\<rparr>"
  from workaround_sent [of env fetch ?u ?s1] obtain xs where
    xs: "sent (snd (createContainerWithNssWorkaroundAt env fetch ?u ?s1)) = sent ?s1 @ xs"
        "prefix xs (workaround_requests ?u)"
    by blast
  show ?thesis
  proof (cases ans)
    case (Inl reason)
    then show ?thesis using u by simp
  next
    case (Inr r)
    show ?thesis
    proof (cases "internal_isUnsuccessfulResponse r \<and> nss_signature r")
      case True
      then have "sent (snd (createContainerAt env fetch url s)) = sent s @ (?u, ?c) # xs"
        using u Inr xs(1) by simp
      then show ?thesis using xs(2) by blast
    next
      case False
      then have "sent (snd (createContainerAt env fetch url s)) = sent s @ [(?u, ?c)]"
        using u Inr by auto
      then show ?thesis by simp
    qed
  qed
qed

lemma workaround_requests_not_create:
  assumes "(u, init) \<in> set (workaround_requests url)"
  shows "headers_get (req_headers init) ''If-None-Match'' = None"
  using assms
  by (auto simp: workaround_requests_def headers_get_def same_header_name_def ascii_lower_def)

text \<open>
  C9: the requests \<open>createContainerAt\<close> sends start with the container
  creation request, a PUT with \<open>If-None-Match: *\<close> and the BasicContainer
  link header, at the given URL if that ends in a slash and at the URL with a
  slash appended otherwise; so the URL of that request always ends in a
  slash. No later request of the call carries \<open>If-None-Match\<close>.
\<close>

theorem createContainerAt_location:
  "\<exists>rest. sent (snd (createContainerAt env fetch url s))
            = sent s @ ((if endsWith url ''/'' then url else url @ ''/''),
                        create_container_request env) # rest
         \<and> endsWith (if endsWith url ''/'' then url else url @ ''/'') ''/''
         \<and> req_method (create_container_request env) = ''PUT''
         \<and> headers_get (req_headers (create_container_request env)) ''If-None-Match'' = Some ''*''
         \<and> headers_get (req_headers (create_container_request env)) ''Link''
             = Some (''<'' @ ldp_BasicContainer env @ ''>; rel='' @ dquote @ ''type'' @ dquote)
         \<and> (\<forall>u init. (u, init) \<in> set rest \<longrightarrow>
               headers_get (req_headers init) ''If-None-Match'' = None)"
proof -
  from createContainerAt_sent [of env fetch url s] obtain rest where
    r: "sent (snd (createContainerAt env fetch url s))
          = sent s @ (container_location url, create_container_request env) # rest"
       "prefix rest (workaround_requests (container_location url))"
    by blast
  have none: "\<forall>u init. (u, init) \<in> set rest \<longrightarrow>
               headers_get (req_headers init) ''If-None-Match'' = None"
    using r(2) workaround_requests_not_create set_mono_prefix by blast
  have e: "endsWith (if endsWith url ''/'' then url else url @ ''/'') ''/''"
    using endsWith_container_location [of url] by (simp only: container_location_def)
  have m: "req_method (create_container_request env) = ''PUT''"
    by (simp add: create_container_request_def)
  have h1: "headers_get (req_headers (create_container_request env)) ''If-None-Match''
              = Some ''*''"
    by (simp add: create_container_request_def headers_get_def same_header_name_def
          ascii_lower_def)
  have h2: "headers_get (req_headers (create_container_request env)) ''Link''
             = Some (''<'' @ ldp_BasicContainer env @ ''>; rel='' @ dquote @ ''type'' @ dquote)"
    by (simp add: create_container_request_def headers_get_def same_header_name_def
          ascii_lower_def link_type_def)
  show ?thesis
  proof (intro exI conjI)
    show "sent (snd (createContainerAt env fetch url s))
            = sent s @ ((if endsWith url ''/'' then url else url @ ''/''),
                        create_container_request env) # rest"
      using r(1) by (simp only: container_location_def)
  qed (rule e m h1 h2 none)+
qed

text \<open>The theorem at a URL without the slash: the PUT goes to the URL with the slash.\<close>

theorem createContainerAt_location_witness:
  "\<exists>rest. sent (snd (createContainerAt ref_env scripted_fetch ''https://x.pod/c''
                        (start [] [container_response])))
            = (''https://x.pod/c/'', create_container_request ref_env) # rest"
proof -
  have "\<not> endsWith ''https://x.pod/c'' ''/''"
    by (simp add: endsWith_def)
  then show ?thesis
    using createContainerAt_location
            [of ref_env scripted_fetch "''https://x.pod/c''" "start [] [container_response]"]
    by (auto simp: start_def)
qed

lemma not_found_unsuccessful: "status r = 404 \<Longrightarrow> internal_isUnsuccessfulResponse r"
  by (simp add: internal_isUnsuccessfulResponse_def)

lemma getResourceInfo_404:
  assumes "fetch url \<lparr>req_method = ''HEAD'', req_headers = [], req_body = None\<rparr> (world s)
             = (Inr r, w)"
      and "status r = 404"
  shows "\<exists>fe. getResourceInfo env fetch url s
                = (Inl (FetchError fe),
                   s\<lparr>sent := sent s @ [(url, \<lparr>req_method = ''HEAD'', req_headers = [],
                                                req_body = None\<rparr>)],
                     world := w\<rparr>)
              \<and> statusCode fe = 404"
  unfolding getResourceInfo_def config_fetch_result [where fetch = fetch, OF assms(1)]
  using assms(2) by (simp add: not_found_unsuccessful statusCode_def)

lemma workaround_path:
  assumes h1: "fetch url \<lparr>req_method = ''HEAD'', req_headers = [], req_body = None\<rparr> (world s)
                 = (Inr r1, w1)"
      and nf: "status r1 = 404"
      and p: "fetch (url @ ''.dummy'')
                \<lparr>req_method = ''PUT'',
                 req_headers = [(''Accept'', ''text/turtle''), (''Content-Type'', ''text/turtle'')],
                 req_body = None\<rparr> w1 = (Inr r2, w2)"
      and ok: "\<not> internal_isUnsuccessfulResponse r2"
      and d: "fetch (url @ ''.dummy'')
                \<lparr>req_method = ''DELETE'', req_headers = [], req_body = None\<rparr> w2 = (Inr r3, w3)"
      and h2: "fetch url \<lparr>req_method = ''HEAD'', req_headers = [], req_body = None\<rparr> w3
                 = (Inr r4, w4)"
  shows "createContainerWithNssWorkaroundAt env fetch url s =
           (Inr (length (store s)),
            s\<lparr>store := store s @
                  [dataset\<lparr>internal_changeLog := Some \<lparr>additions = [], deletions = []\<rparr>,
                           internal_resourceInfo := Some (internal_parseResourceInfo env r4)\<rparr>],
              sent := sent s @ workaround_requests url,
              world := w4\<rparr>)"
proof -
  let ?h = "\<lparr>req_method = ''HEAD'', req_headers = [], req_body = None\<rparr>"
  let ?p = "\<lparr>req_method = ''PUT'',
             req_headers = [(''Accept'', ''text/turtle''), (''Content-Type'', ''text/turtle'')],
             req_body = None\<rparr>"
  let ?d = "\<lparr>req_method = ''DELETE'', req_headers = [], req_body = None\<rparr>"
  let ?du = "url @ ''.dummy''"
  let ?s1 = "s\<lparr>sent := sent s @ [(url, ?h)], world := w1\<rparr>"
  let ?s2 = "s\<lparr>sent := sent s @ [(url, ?h), (?du, ?p)], world := w2\<rparr>"
  let ?s3 = "s\<lparr>sent := sent s @ [(url, ?h), (?du, ?p), (?du, ?d)], world := w3\<rparr>"
  from getResourceInfo_404 [where fetch = fetch, OF h1 nf, of env] obtain fe where
    g: "getResourceInfo env fetch url s = (Inl (FetchError fe), ?s1)" and c: "statusCode fe = 404"
    by blast
  have f2: "config_fetch fetch ?du ?p ?s1 = (Inr r2, ?s2)"
    using config_fetch_result [where fetch = fetch and s = ?s1 and url = ?du and init = ?p
                                 and ans = "Inr r2" and w = w2] p
    by simp
  have f3: "config_fetch fetch ?du ?d ?s2 = (Inr r3, ?s3)"
    using config_fetch_result [where fetch = fetch and s = ?s2 and url = ?du and init = ?d
                                 and ans = "Inr r3" and w = w3] d
    by simp
  have f4: "config_fetch fetch url ?h ?s3
              = (Inr r4, s\<lparr>sent := sent s @ [(url, ?h), (?du, ?p), (?du, ?d), (url, ?h)],
                           world := w4\<rparr>)"
    using config_fetch_result [where fetch = fetch and s = ?s3 and url = url and init = ?h
                                 and ans = "Inr r4" and w = w4] h2
    by simp
  show ?thesis
    unfolding createContainerWithNssWorkaroundAt_def g
    by (simp add: c Let_def f2 f3 f4 ok new_container_dataset_def heap_alloc_def
          workaround_requests_def)
qed

lemma createContainerAt_fallback_taken:
  assumes ans: "fetch (container_location url) (create_container_request env) (world s)
                  = (Inr r, w)"
      and bad: "internal_isUnsuccessfulResponse r"
      and sig: "nss_signature r"
  shows "createContainerAt env fetch url s =
           createContainerWithNssWorkaroundAt env fetch (container_location url)
             (s\<lparr>sent := sent s @ [(container_location url, create_container_request env)],
               world := w\<rparr>)"
  using createContainerAt_unfold [where fetch = fetch, OF ans] bad sig by simp

lemma createContainerAt_failure:
  assumes ans: "fetch (container_location url) (create_container_request env) (world s)
                  = (Inr r, w)"
      and bad: "internal_isUnsuccessfulResponse r"
      and sig: "\<not> nss_signature r"
  shows "createContainerAt env fetch url s =
           (Inl (create_container_failure (container_location url) r),
            s\<lparr>sent := sent s @ [(container_location url, create_container_request env)],
              world := w\<rparr>)"
  using createContainerAt_unfold [where fetch = fetch, OF ans] bad sig by simp

text \<open>
  C5, as amended: when the response to the creation request is unsuccessful,
  \<open>createContainerAt\<close> continues as \<open>createContainerWithNssWorkaroundAt\<close> if
  and only if the status is 409, the status text is "Conflict" and the body,
  with the white space at its ends trimmed, is the known error message of Node
  Solid Server; a further request is sent in that case only. Every other
  unsuccessful response ends the call after that one request with a
  \<open>FetchError\<close> that carries the response, its status code and its status text.
  In the workaround, when the HEAD on the container answers 404 and the PUT of
  the dummy file succeeds, the requests are HEAD, PUT of the dummy, DELETE of
  the dummy and HEAD, and a new container dataset with the parsed resource info
  of the last response is returned.
\<close>

theorem createContainerAt_fallback:
  assumes ans: "fetch (container_location url) (create_container_request env) (world s)
                  = (Inr r, w)"
      and bad: "internal_isUnsuccessfulResponse r"
  shows "nss_signature r
           = (status r = 409 \<and> statusText r = ''Conflict''
              \<and> trim (resp_text r)
                  = ''Can'' @ squote
                    @ ''t write file: PUT not supported on containers, use POST instead'')
       \<and> (nss_signature r \<longrightarrow>
             createContainerAt env fetch url s =
               createContainerWithNssWorkaroundAt env fetch (container_location url)
                 (s\<lparr>sent := sent s @ [(container_location url, create_container_request env)],
                   world := w\<rparr>))
       \<and> (\<not> nss_signature r \<longrightarrow>
             (\<exists>fe. createContainerAt env fetch url s =
                     (Inl (FetchError fe),
                      s\<lparr>sent := sent s @ [(container_location url,
                                              create_container_request env)],
                        world := w\<rparr>)
                  \<and> statusCode fe = status r
                  \<and> statusText_of_error fe = statusText r
                  \<and> response fe = r))
       \<and> (Suc (length (sent s)) < length (sent (snd (createContainerAt env fetch url s)))
            \<longleftrightarrow> nss_signature r)
       \<and> (\<forall>r1 w1 r2 w2 r3 w3 r4 w4.
             nss_signature r
             \<and> fetch (container_location url)
                  \<lparr>req_method = ''HEAD'', req_headers = [], req_body = None\<rparr> w = (Inr r1, w1)
             \<and> status r1 = 404
             \<and> fetch (container_location url @ ''.dummy'')
                  \<lparr>req_method = ''PUT'',
                   req_headers = [(''Accept'', ''text/turtle''),
                                  (''Content-Type'', ''text/turtle'')],
                   req_body = None\<rparr> w1 = (Inr r2, w2)
             \<and> \<not> internal_isUnsuccessfulResponse r2
             \<and> fetch (container_location url @ ''.dummy'')
                  \<lparr>req_method = ''DELETE'', req_headers = [], req_body = None\<rparr> w2
                 = (Inr r3, w3)
             \<and> fetch (container_location url)
                  \<lparr>req_method = ''HEAD'', req_headers = [], req_body = None\<rparr> w3 = (Inr r4, w4)
             \<longrightarrow>
             createContainerAt env fetch url s =
               (Inr (length (store s)),
                s\<lparr>store := store s @
                      [dataset\<lparr>internal_changeLog := Some \<lparr>additions = [], deletions = []\<rparr>,
                               internal_resourceInfo :=
                                 Some (internal_parseResourceInfo env r4)\<rparr>],
                  sent := sent s @ (container_location url, create_container_request env)
                          # workaround_requests (container_location url),
                  world := w4\<rparr>))"
proof -
  let ?u = "container_location url"
  let ?s1 = "s\<lparr>sent := sent s @ [(?u, create_container_request env)], world := w\<rparr>"
  have c1: "nss_signature r
           = (status r = 409 \<and> statusText r = ''Conflict''
              \<and> trim (resp_text r)
                  = ''Can'' @ squote
                    @ ''t write file: PUT not supported on containers, use POST instead'')"
    by (simp only: nss_signature_def
          internal_NSS_CREATE_CONTAINER_SPEC_NONCOMPLIANCE_DETECTION_ERROR_MESSAGE_def)
  have c2: "nss_signature r \<longrightarrow>
             createContainerAt env fetch url s =
               createContainerWithNssWorkaroundAt env fetch ?u ?s1"
    using createContainerAt_fallback_taken [where fetch = fetch, OF ans bad] by blast
  have c3: "\<not> nss_signature r \<longrightarrow>
             (\<exists>fe. createContainerAt env fetch url s = (Inl (FetchError fe), ?s1)
                  \<and> statusCode fe = status r
                  \<and> statusText_of_error fe = statusText r
                  \<and> response fe = r)"
    using createContainerAt_failure [where fetch = fetch, OF ans bad]
    by (simp add: create_container_failure_def statusCode_def statusText_of_error_def)
  have c4: "Suc (length (sent s)) < length (sent (snd (createContainerAt env fetch url s)))
            \<longleftrightarrow> nss_signature r"
  proof (cases "nss_signature r")
    case True
    from workaround_sent [of env fetch ?u ?s1] obtain xs where
      xs: "sent (snd (createContainerWithNssWorkaroundAt env fetch ?u ?s1)) = sent ?s1 @ xs"
          "xs \<noteq> []"
      by blast
    have "0 < length xs"
      using xs(2) by simp
    then show ?thesis
      using True c2 xs(1) by simp
  next
    case False
    then show ?thesis
      using createContainerAt_failure [where fetch = fetch, OF ans bad] by simp
  qed
  have c5: "\<forall>r1 w1 r2 w2 r3 w3 r4 w4.
             nss_signature r
             \<and> fetch ?u \<lparr>req_method = ''HEAD'', req_headers = [], req_body = None\<rparr> w
                 = (Inr r1, w1)
             \<and> status r1 = 404
             \<and> fetch (?u @ ''.dummy'')
                  \<lparr>req_method = ''PUT'',
                   req_headers = [(''Accept'', ''text/turtle''),
                                  (''Content-Type'', ''text/turtle'')],
                   req_body = None\<rparr> w1 = (Inr r2, w2)
             \<and> \<not> internal_isUnsuccessfulResponse r2
             \<and> fetch (?u @ ''.dummy'')
                  \<lparr>req_method = ''DELETE'', req_headers = [], req_body = None\<rparr> w2
                 = (Inr r3, w3)
             \<and> fetch ?u \<lparr>req_method = ''HEAD'', req_headers = [], req_body = None\<rparr> w3
                 = (Inr r4, w4)
             \<longrightarrow>
             createContainerAt env fetch url s =
               (Inr (length (store s)),
                s\<lparr>store := store s @
                      [dataset\<lparr>internal_changeLog := Some \<lparr>additions = [], deletions = []\<rparr>,
                               internal_resourceInfo :=
                                 Some (internal_parseResourceInfo env r4)\<rparr>],
                  sent := sent s @ (?u, create_container_request env) # workaround_requests ?u,
                  world := w4\<rparr>)"
  proof (intro allI impI, elim conjE)
    fix r1 w1 r2 w2 r3 w3 r4 w4
    assume sig: "nss_signature r"
      and h1: "fetch ?u \<lparr>req_method = ''HEAD'', req_headers = [], req_body = None\<rparr> w
                 = (Inr r1, w1)"
      and nf: "status r1 = 404"
      and p: "fetch (?u @ ''.dummy'')
                  \<lparr>req_method = ''PUT'',
                   req_headers = [(''Accept'', ''text/turtle''),
                                  (''Content-Type'', ''text/turtle'')],
                   req_body = None\<rparr> w1 = (Inr r2, w2)"
      and ok: "\<not> internal_isUnsuccessfulResponse r2"
      and d: "fetch (?u @ ''.dummy'')
                  \<lparr>req_method = ''DELETE'', req_headers = [], req_body = None\<rparr> w2
                 = (Inr r3, w3)"
      and h2: "fetch ?u \<lparr>req_method = ''HEAD'', req_headers = [], req_body = None\<rparr> w3
                 = (Inr r4, w4)"
    have h1': "fetch ?u \<lparr>req_method = ''HEAD'', req_headers = [], req_body = None\<rparr> (world ?s1)
                 = (Inr r1, w1)"
      using h1 by simp
    show "createContainerAt env fetch url s =
               (Inr (length (store s)),
                s\<lparr>store := store s @
                      [dataset\<lparr>internal_changeLog := Some \<lparr>additions = [], deletions = []\<rparr>,
                               internal_resourceInfo :=
                                 Some (internal_parseResourceInfo env r4)\<rparr>],
                  sent := sent s @ (?u, create_container_request env) # workaround_requests ?u,
                  world := w4\<rparr>)"
      unfolding createContainerAt_fallback_taken [where fetch = fetch, OF ans bad sig]
                workaround_path [where fetch = fetch and s = ?s1, OF h1' nf p ok d h2]
      by simp
  qed
  show ?thesis
    using c1 c2 c3 c4 c5 by (intro conjI)
qed

lemma location_iri_resolved:
  assumes "url_origin env containerUrl = Some origin" and "url_href env loc origin = Some href"
  shows "location_iri env loc containerUrl = Inr href"
  using assms by (simp add: location_iri_def)

lemma saveSolidDatasetInContainer_success:
  assumes look: "heap_lookup (store s) a = Some d"
      and ans: "fetch containerUrl
                  \<lparr>req_method = ''POST'',
                   req_headers = [(''Content-Type'', ''text/turtle''),
                                  (''Link'', link_type (ldp_Resource env))] @ slug_header slug,
                   req_body = Some (triplesToTurtle env
                                      (map getNamedNodesForLocalNodes (quads d)))\<rparr>
                  (world s) = (Inr r, w)"
      and ok: "\<not> internal_isUnsuccessfulResponse r"
      and loc: "headers_get (resp_headers r) ''Location'' = Some loc"
      and iri: "location_iri env loc containerUrl = Inr href"
  shows "saveSolidDatasetInContainer env fetch containerUrl a slug s =
           (Inr (length (store s)),
            s\<lparr>store := store s @
                  [d\<lparr>quads := resolve_each href (quads d) (quads d),
                     internal_resourceInfo :=
                       Some \<lparr>sourceIri = href, isRawData = False, contentType = None,
                             linkedResources = None\<rparr>\<rparr>],
              sent := sent s @
                  [(containerUrl,
                    \<lparr>req_method = ''POST'',
                     req_headers = [(''Content-Type'', ''text/turtle''),
                                    (''Link'', link_type (ldp_Resource env))] @ slug_header slug,
                     req_body = Some (triplesToTurtle env
                                        (map getNamedNodesForLocalNodes (quads d)))\<rparr>)],
              world := w\<rparr>)"
proof -
  from look have v: "a < length (store s)" "store s ! a = d"
    by (simp_all add: heap_lookup_Some)
  show ?thesis
    unfolding saveSolidDatasetInContainer_def Let_def
    using v ok loc iri config_fetch_result [where fetch = fetch, OF ans]
    by (simp add: internal_cloneResource_def
          heap_alloc_def object_assign_def resolveLocalIrisInSolidDataset_def heap_lookup_def
          getSourceUrl_def)
qed

lemma createContainerInContainer_success:
  assumes ans: "fetch containerUrl
                  \<lparr>req_method = ''POST'',
                   req_headers = [(''Content-Type'', ''text/turtle''),
                                  (''Link'', link_type (ldp_BasicContainer env))]
                                 @ slug_header slug,
                   req_body = None\<rparr>
                  (world s) = (Inr r, w)"
      and ok: "\<not> internal_isUnsuccessfulResponse r"
      and loc: "headers_get (resp_headers r) ''Location'' = Some loc"
      and iri: "location_iri env loc containerUrl = Inr href"
  shows "createContainerInContainer env fetch containerUrl slug s =
           (Inr (length (store s)),
            s\<lparr>store := store s @
                  [dataset\<lparr>internal_resourceInfo :=
                             Some \<lparr>sourceIri = href, isRawData = False, contentType = None,
                                   linkedResources = None\<rparr>\<rparr>],
              sent := sent s @
                  [(containerUrl,
                    \<lparr>req_method = ''POST'',
                     req_headers = [(''Content-Type'', ''text/turtle''),
                                    (''Link'', link_type (ldp_BasicContainer env))]
                                   @ slug_header slug,
                     req_body = None\<rparr>)],
              world := w\<rparr>)"
  unfolding createContainerInContainer_def Let_def
  using ok loc iri config_fetch_result [where fetch = fetch, OF ans]
  by (simp add: heap_alloc_def)

text \<open>
  C8, as amended: when the response to the POST that
  \<open>saveSolidDatasetInContainer\<close> or \<open>createContainerInContainer\<close> sends is
  successful and has a Location header, the operation sends that one request
  and returns a new dataset whose source IRI is the header resolved against the
  origin of the container URL that was passed in. The URL and the final
  location of the response do not enter.
\<close>

theorem location_header_resolution:
  assumes ok: "\<not> internal_isUnsuccessfulResponse r"
      and loc: "headers_get (resp_headers r) ''Location'' = Some loc"
      and org: "url_origin env containerUrl = Some origin"
      and href: "url_href env loc origin = Some href"
  shows "(\<forall>d. heap_lookup (store s) a = Some d
            \<and> fst (fetch containerUrl
                      \<lparr>req_method = ''POST'',
                       req_headers = [(''Content-Type'', ''text/turtle''),
                                      (''Link'', link_type (ldp_Resource env))]
                                     @ slug_header slug,
                       req_body = Some (triplesToTurtle env
                                          (map getNamedNodesForLocalNodes (quads d)))\<rparr>
                      (world s)) = Inr r
            \<longrightarrow>
            fst (saveSolidDatasetInContainer env fetch containerUrl a slug s)
              = Inr (length (store s))
          \<and> sent (snd (saveSolidDatasetInContainer env fetch containerUrl a slug s))
              = sent s @
                [(containerUrl,
                  \<lparr>req_method = ''POST'',
                   req_headers = [(''Content-Type'', ''text/turtle''),
                                  (''Link'', link_type (ldp_Resource env))]
                                 @ slug_header slug,
                   req_body = Some (triplesToTurtle env
                                      (map getNamedNodesForLocalNodes (quads d)))\<rparr>)]
          \<and> map_option internal_resourceInfo
               (heap_lookup (store (snd (saveSolidDatasetInContainer env fetch containerUrl a
                                           slug s))) (length (store s)))
              = Some (Some \<lparr>sourceIri = href, isRawData = False, contentType = None,
                            linkedResources = None\<rparr>))
       \<and> (fst (fetch containerUrl
                  \<lparr>req_method = ''POST'',
                   req_headers = [(''Content-Type'', ''text/turtle''),
                                  (''Link'', link_type (ldp_BasicContainer env))]
                                 @ slug_header slug,
                   req_body = None\<rparr>
                  (world s)) = Inr r
            \<longrightarrow>
            fst (createContainerInContainer env fetch containerUrl slug s)
              = Inr (length (store s))
          \<and> sent (snd (createContainerInContainer env fetch containerUrl slug s))
              = sent s @
                [(containerUrl,
                  \<lparr>req_method = ''POST'',
                   req_headers = [(''Content-Type'', ''text/turtle''),
                                  (''Link'', link_type (ldp_BasicContainer env))]
                                 @ slug_header slug,
                   req_body = None\<rparr>)]
          \<and> map_option internal_resourceInfo
               (heap_lookup (store (snd (createContainerInContainer env fetch containerUrl
                                           slug s))) (length (store s)))
              = Some (Some \<lparr>sourceIri = href, isRawData = False, contentType = None,
                            linkedResources = None\<rparr>))"
proof -
  have iri: "location_iri env loc containerUrl = Inr href"
    using org href by (rule location_iri_resolved)
  let ?p1 = "\<lambda>d. \<lparr>req_method = ''POST'',
                 req_headers = [(''Content-Type'', ''text/turtle''),
                                (''Link'', link_type (ldp_Resource env))] @ slug_header slug,
                 req_body = Some (triplesToTurtle env
                                    (map getNamedNodesForLocalNodes (quads d)))\<rparr>"
  let ?p2 = "\<lparr>req_method = ''POST'',
             req_headers = [(''Content-Type'', ''text/turtle''),
                            (''Link'', link_type (ldp_BasicContainer env))] @ slug_header slug,
             req_body = None\<rparr>"
  have c1: "\<forall>d. heap_lookup (store s) a = Some d
            \<and> fst (fetch containerUrl (?p1 d) (world s)) = Inr r
            \<longrightarrow>
            fst (saveSolidDatasetInContainer env fetch containerUrl a slug s)
              = Inr (length (store s))
          \<and> sent (snd (saveSolidDatasetInContainer env fetch containerUrl a slug s))
              = sent s @ [(containerUrl, ?p1 d)]
          \<and> map_option internal_resourceInfo
               (heap_lookup (store (snd (saveSolidDatasetInContainer env fetch containerUrl a
                                           slug s))) (length (store s)))
              = Some (Some \<lparr>sourceIri = href, isRawData = False, contentType = None,
                            linkedResources = None\<rparr>)"
  proof (intro allI impI, elim conjE)
    fix d
    assume look: "heap_lookup (store s) a = Some d"
       and ans: "fst (fetch containerUrl (?p1 d) (world s)) = Inr r"
    obtain w where w: "fetch containerUrl (?p1 d) (world s) = (Inr r, w)"
      using ans by (cases "fetch containerUrl (?p1 d) (world s)") simp
    show "fst (saveSolidDatasetInContainer env fetch containerUrl a slug s)
              = Inr (length (store s))
          \<and> sent (snd (saveSolidDatasetInContainer env fetch containerUrl a slug s))
              = sent s @ [(containerUrl, ?p1 d)]
          \<and> map_option internal_resourceInfo
               (heap_lookup (store (snd (saveSolidDatasetInContainer env fetch containerUrl a
                                           slug s))) (length (store s)))
              = Some (Some \<lparr>sourceIri = href, isRawData = False, contentType = None,
                            linkedResources = None\<rparr>)"
      unfolding saveSolidDatasetInContainer_success [where fetch = fetch, OF look w ok loc iri]
      by (simp add: heap_lookup_def)
  qed
  have c2: "fst (fetch containerUrl ?p2 (world s)) = Inr r
            \<longrightarrow>
            fst (createContainerInContainer env fetch containerUrl slug s)
              = Inr (length (store s))
          \<and> sent (snd (createContainerInContainer env fetch containerUrl slug s))
              = sent s @ [(containerUrl, ?p2)]
          \<and> map_option internal_resourceInfo
               (heap_lookup (store (snd (createContainerInContainer env fetch containerUrl
                                           slug s))) (length (store s)))
              = Some (Some \<lparr>sourceIri = href, isRawData = False, contentType = None,
                            linkedResources = None\<rparr>)"
  proof
    assume ans: "fst (fetch containerUrl ?p2 (world s)) = Inr r"
    obtain w where w: "fetch containerUrl ?p2 (world s) = (Inr r, w)"
      using ans by (cases "fetch containerUrl ?p2 (world s)") simp
    show "fst (createContainerInContainer env fetch containerUrl slug s)
              = Inr (length (store s))
          \<and> sent (snd (createContainerInContainer env fetch containerUrl slug s))
              = sent s @ [(containerUrl, ?p2)]
          \<and> map_option internal_resourceInfo
               (heap_lookup (store (snd (createContainerInContainer env fetch containerUrl
                                           slug s))) (length (store s)))
              = Some (Some \<lparr>sourceIri = href, isRawData = False, contentType = None,
                            linkedResources = None\<rparr>)"
      unfolding createContainerInContainer_success [where fetch = fetch, OF w ok loc iri]
      by (simp add: heap_lookup_def)
  qed
  show ?thesis
    using c1 c2 by (rule conjI)
qed

lemma created_ok: "\<not> internal_isUnsuccessfulResponse (created_response loc)"
  by (simp add: internal_isUnsuccessfulResponse_def created_response_def reply_def)

lemma created_location: "headers_get (resp_headers (created_response loc)) ''Location'' = Some loc"
  by (simp add: headers_get_def same_header_name_def ascii_lower_def created_response_def
        reply_def)

lemma origin_of_container: "url_origin ref_env container_url = Some ''https://x.pod''"
  by (simp add: ref_env_def ref_url_origin_def container_url_def)

lemma child_against_origin: "url_href ref_env ''child'' ''https://x.pod'' = Some ''https://x.pod/child''"
  by (simp add: ref_env_def ref_url_href_def)

lemma child_against_final:
  "url_href ref_env ''child'' (resp_url (created_response ''child''))
     = Some ''https://x.pod/a/b/child''"
  by (simp add: ref_env_def ref_url_href_def created_response_def reply_def)

text \<open>
  The theorem at the relative reference \<open>child\<close> for the container
  \<open>https://x.pod/a/b/\<close>, for both operations, with a store that answers only
  a POST and sends its header as \<open>location\<close>.
\<close>

theorem location_header_resolution_witness:
  "fst (createContainerInContainer ref_env post_only_fetch container_url None
          \<lparr>store = [new_doc], sent = [], world = created_response ''child''\<rparr>) = Inr 1
   \<and> map_option internal_resourceInfo
        (heap_lookup (store (snd (createContainerInContainer ref_env post_only_fetch container_url
                                    None \<lparr>store = [new_doc], sent = [], world = created_response ''child''\<rparr>))) 1)
       = Some (Some \<lparr>sourceIri = ''https://x.pod/child'', isRawData = False,
                     contentType = None, linkedResources = None\<rparr>)
   \<and> fst (saveSolidDatasetInContainer ref_env post_only_fetch container_url 0 None
          \<lparr>store = [new_doc], sent = [], world = created_response ''child''\<rparr>) = Inr 1
   \<and> map_option internal_resourceInfo
        (heap_lookup (store (snd (saveSolidDatasetInContainer ref_env post_only_fetch
                                    container_url 0 None
                                    \<lparr>store = [new_doc], sent = [], world = created_response ''child''\<rparr>))) 1)
       = Some (Some \<lparr>sourceIri = ''https://x.pod/child'', isRawData = False,
                     contentType = None, linkedResources = None\<rparr>)"
proof -
  let ?s = "\<lparr>store = [new_doc], sent = [], world = created_response ''child''\<rparr>"
  have ans: "\<And>hs b. fst (post_only_fetch container_url
                            \<lparr>req_method = ''POST'', req_headers = hs, req_body = b\<rparr> (world ?s))
                      = Inr (created_response ''child'')"
    by (simp add: post_only_fetch_def)
  have z: "length (store ?s) = 1"
    by simp
  have look: "heap_lookup (store ?s) 0 = Some new_doc"
    by (simp add: heap_lookup_def)
  show ?thesis
    using location_header_resolution [where fetch = post_only_fetch and s = ?s and a = 0
            and slug = None and env = ref_env, OF created_ok created_location
            origin_of_container child_against_origin] look ans
    unfolding z by simp
qed

text \<open>
  C8 as stated fails: for the container \<open>https://x.pod/a/b/\<close> and the Location
  \<open>child\<close> both operations store \<open>https://x.pod/child\<close>, while the reference
  resolved against the final location of the response is
  \<open>https://x.pod/a/b/child\<close>.
\<close>

theorem location_header_resolution_counterexample:
  "map_option getSourceUrl
     (heap_lookup (store (snd (createContainerInContainer ref_env scripted_fetch container_url
                                 None (start [] [created_response ''child''])))) 0)
     = Some (Some ''https://x.pod/child'')
   \<and> map_option getSourceUrl
       (heap_lookup (store (snd (saveSolidDatasetInContainer ref_env scripted_fetch container_url
                                   0 None (start [new_doc] [created_response ''child''])))) 1)
     = Some (Some ''https://x.pod/child'')
   \<and> url_href ref_env ''child'' (resp_url (created_response ''child''))
     = Some ''https://x.pod/a/b/child''"
proof -
  let ?s = "start [] [created_response ''child'']"
  let ?t = "start [new_doc] [created_response ''child'']"
  have iri: "location_iri ref_env ''child'' container_url = Inr ''https://x.pod/child''"
    using origin_of_container child_against_origin by (rule location_iri_resolved)
  have w: "scripted_fetch container_url
                  \<lparr>req_method = ''POST'',
                   req_headers = [(''Content-Type'', ''text/turtle''),
                                  (''Link'', link_type (ldp_BasicContainer ref_env))]
                                 @ slug_header None,
                   req_body = None\<rparr>
                  (world ?s) = (Inr (created_response ''child''), [])"
    by (simp add: scripted_fetch_def start_def)
  have c1: "map_option getSourceUrl
     (heap_lookup (store (snd (createContainerInContainer ref_env scripted_fetch container_url
                                 None ?s))) 0)
     = Some (Some ''https://x.pod/child'')"
    unfolding createContainerInContainer_success
                [where fetch = scripted_fetch, OF w created_ok created_location iri]
    by (simp add: heap_lookup_def start_def getSourceUrl_def)
  have look: "heap_lookup (store ?t) 0 = Some new_doc"
    by (simp add: heap_lookup_def start_def)
  have w2: "scripted_fetch container_url
                  \<lparr>req_method = ''POST'',
                   req_headers = [(''Content-Type'', ''text/turtle''),
                                  (''Link'', link_type (ldp_Resource ref_env))]
                                 @ slug_header None,
                   req_body = Some (triplesToTurtle ref_env
                                      (map getNamedNodesForLocalNodes (quads new_doc)))\<rparr>
                  (world ?t) = (Inr (created_response ''child''), [])"
    by (simp add: scripted_fetch_def start_def)
  have c2: "map_option getSourceUrl
       (heap_lookup (store (snd (saveSolidDatasetInContainer ref_env scripted_fetch container_url
                                   0 None ?t))) 1)
     = Some (Some ''https://x.pod/child'')"
    unfolding saveSolidDatasetInContainer_success
                [where fetch = scripted_fetch, OF look w2 created_ok created_location iri]
    by (simp add: heap_lookup_def start_def getSourceUrl_def)
  show ?thesis
    using c1 c2 child_against_final by (intro conjI)
qed

lemma conflict_unsuccessful: "internal_isUnsuccessfulResponse (conflict_response body)"
  by (simp add: internal_isUnsuccessfulResponse_def conflict_response_def reply_def)

lemma nss_signature_exact:
  "nss_signature
     (conflict_response internal_NSS_CREATE_CONTAINER_SPEC_NONCOMPLIANCE_DETECTION_ERROR_MESSAGE)"
  by (simp add: nss_signature_def conflict_response_def reply_def trim_def isWhiteSpace_def
        internal_NSS_CREATE_CONTAINER_SPEC_NONCOMPLIANCE_DETECTION_ERROR_MESSAGE_def squote_def)

lemma nss_signature_newline:
  "nss_signature
     (conflict_response
        (internal_NSS_CREATE_CONTAINER_SPEC_NONCOMPLIANCE_DETECTION_ERROR_MESSAGE @ nl))"
  by (simp add: nss_signature_def conflict_response_def reply_def trim_def isWhiteSpace_def
        internal_NSS_CREATE_CONTAINER_SPEC_NONCOMPLIANCE_DETECTION_ERROR_MESSAGE_def squote_def
        nl_def)

lemma location_c: "container_location ''https://x.pod/c'' = ''https://x.pod/c/''"
  by (simp add: container_location_def endsWith_def)

lemma scripted_fetch_next: "scripted_fetch url init (r # rs) = (Inr r, rs)"
  by (simp add: scripted_fetch_def)

lemma scripted_workaround:
  assumes sig: "nss_signature r" and bad: "internal_isUnsuccessfulResponse r"
  shows "createContainerAt ref_env scripted_fetch ''https://x.pod/c''
           (start [] [r, not_found_response, ok_response, ok_response, container_response])
         = (Inr 0,
            \<lparr>store = [dataset\<lparr>internal_changeLog := Some \<lparr>additions = [], deletions = []\<rparr>,
                              internal_resourceInfo :=
                                Some (internal_parseResourceInfo ref_env container_response)\<rparr>],
             sent = (''https://x.pod/c/'', create_container_request ref_env)
                    # workaround_requests ''https://x.pod/c/'',
             world = []\<rparr>)"
proof -
  let ?s = "start [] [r, not_found_response, ok_response, ok_response, container_response]"
  let ?u = "container_location ''https://x.pod/c''"
  let ?s1 = "?s\<lparr>sent := sent ?s @ [(?u, create_container_request ref_env)],
               world := [not_found_response, ok_response, ok_response, container_response]\<rparr>"
  have ans: "scripted_fetch ?u (create_container_request ref_env) (world ?s)
               = (Inr r, [not_found_response, ok_response, ok_response, container_response])"
    by (simp add: start_def scripted_fetch_next)
  have h1: "scripted_fetch ?u \<lparr>req_method = ''HEAD'', req_headers = [], req_body = None\<rparr>
              (world ?s1) = (Inr not_found_response, [ok_response, ok_response, container_response])"
    by (simp add: scripted_fetch_next)
  have nf: "status not_found_response = 404"
    by (simp add: not_found_response_def reply_def)
  have p: "scripted_fetch (?u @ ''.dummy'')
                \<lparr>req_method = ''PUT'',
                 req_headers = [(''Accept'', ''text/turtle''), (''Content-Type'', ''text/turtle'')],
                 req_body = None\<rparr> [ok_response, ok_response, container_response]
             = (Inr ok_response, [ok_response, container_response])"
    by (rule scripted_fetch_next)
  have ok: "\<not> internal_isUnsuccessfulResponse ok_response"
    by (simp add: internal_isUnsuccessfulResponse_def ok_response_def reply_def)
  have d: "scripted_fetch (?u @ ''.dummy'')
                \<lparr>req_method = ''DELETE'', req_headers = [], req_body = None\<rparr>
                [ok_response, container_response]
             = (Inr ok_response, [container_response])"
    by (rule scripted_fetch_next)
  have h2: "scripted_fetch ?u \<lparr>req_method = ''HEAD'', req_headers = [], req_body = None\<rparr>
              [container_response] = (Inr container_response, [])"
    by (rule scripted_fetch_next)
  show ?thesis
    unfolding createContainerAt_fallback_taken [where fetch = scripted_fetch, OF ans bad sig]
              workaround_path [where fetch = scripted_fetch and s = ?s1, OF h1 nf p ok d h2]
    by (simp add: start_def location_c)
qed

text \<open>
  Scenario C with the exact error body: the workaround runs to its end and a
  container dataset is returned. A 403 response is an error.
\<close>

theorem createContainerAt_fallback_witness:
  "createContainerAt ref_env scripted_fetch ''https://x.pod/c''
     (start [] [conflict_response internal_NSS_CREATE_CONTAINER_SPEC_NONCOMPLIANCE_DETECTION_ERROR_MESSAGE,
                not_found_response, ok_response, ok_response, container_response])
   = (Inr 0,
      \<lparr>store = [dataset\<lparr>internal_changeLog := Some \<lparr>additions = [], deletions = []\<rparr>,
                        internal_resourceInfo :=
                          Some (internal_parseResourceInfo ref_env container_response)\<rparr>],
       sent = (''https://x.pod/c/'', create_container_request ref_env)
              # workaround_requests ''https://x.pod/c/'',
       world = []\<rparr>)
   \<and> (\<exists>fe. fst (createContainerAt ref_env scripted_fetch ''https://x.pod/c''
                    (start [] [forbidden_response])) = Inl (FetchError fe)
           \<and> statusCode fe = 403)"
proof -
  let ?m = "internal_NSS_CREATE_CONTAINER_SPEC_NONCOMPLIANCE_DETECTION_ERROR_MESSAGE"
  let ?s = "start [] [conflict_response ?m, not_found_response, ok_response, ok_response,
                      container_response]"
  let ?u = "container_location ''https://x.pod/c''"
  have ans: "scripted_fetch ?u (create_container_request ref_env) (world ?s)
               = (Inr (conflict_response ?m),
                  [not_found_response, ok_response, ok_response, container_response])"
    by (simp add: start_def scripted_fetch_next)
  have ok: "\<not> internal_isUnsuccessfulResponse ok_response"
    by (simp add: internal_isUnsuccessfulResponse_def ok_response_def reply_def)
  have nf: "status not_found_response = 404"
    by (simp add: not_found_response_def reply_def)
  have path: "nss_signature (conflict_response ?m)
      \<and> scripted_fetch ?u \<lparr>req_method = ''HEAD'', req_headers = [], req_body = None\<rparr>
            [not_found_response, ok_response, ok_response, container_response]
          = (Inr not_found_response, [ok_response, ok_response, container_response])
      \<and> status not_found_response = 404
      \<and> scripted_fetch (?u @ ''.dummy'')
            \<lparr>req_method = ''PUT'',
             req_headers = [(''Accept'', ''text/turtle''), (''Content-Type'', ''text/turtle'')],
             req_body = None\<rparr> [ok_response, ok_response, container_response]
          = (Inr ok_response, [ok_response, container_response])
      \<and> \<not> internal_isUnsuccessfulResponse ok_response
      \<and> scripted_fetch (?u @ ''.dummy'')
            \<lparr>req_method = ''DELETE'', req_headers = [], req_body = None\<rparr>
            [ok_response, container_response]
          = (Inr ok_response, [container_response])
      \<and> scripted_fetch ?u \<lparr>req_method = ''HEAD'', req_headers = [], req_body = None\<rparr>
            [container_response]
          = (Inr container_response, [])"
    using nss_signature_exact nf ok by (simp add: scripted_fetch_next)
  have one: "createContainerAt ref_env scripted_fetch ''https://x.pod/c'' ?s
               = (Inr (length (store ?s)),
                  ?s\<lparr>store := store ?s @
                        [dataset\<lparr>internal_changeLog := Some \<lparr>additions = [], deletions = []\<rparr>,
                                 internal_resourceInfo :=
                                   Some (internal_parseResourceInfo ref_env container_response)\<rparr>],
                     sent := sent ?s @ (?u, create_container_request ref_env)
                             # workaround_requests ?u,
                     world := []\<rparr>)"
    by (rule createContainerAt_fallback
               [where fetch = scripted_fetch, OF ans conflict_unsuccessful,
                THEN conjunct2, THEN conjunct2, THEN conjunct2, THEN conjunct2,
                rule_format, OF path])
  let ?t = "start [] [forbidden_response]"
  have ans2: "scripted_fetch ?u (create_container_request ref_env) (world ?t)
                = (Inr forbidden_response, [])"
    by (simp add: start_def scripted_fetch_next)
  have bad2: "internal_isUnsuccessfulResponse forbidden_response"
    by (simp add: internal_isUnsuccessfulResponse_def forbidden_response_def reply_def)
  have nosig: "\<not> nss_signature forbidden_response"
    by (simp add: nss_signature_def forbidden_response_def reply_def)
  have st: "status forbidden_response = 403"
    by (simp add: forbidden_response_def reply_def)
  have two: "\<exists>fe. fst (createContainerAt ref_env scripted_fetch ''https://x.pod/c'' ?t)
                     = Inl (FetchError fe) \<and> statusCode fe = 403"
    using createContainerAt_fallback [where fetch = scripted_fetch, OF ans2 bad2] nosig st
    by auto
  show ?thesis
    using one two by (simp add: start_def location_c)
qed

text \<open>
  C5 as stated fails: a 409 Conflict whose body is the error message followed
  by a line feed is not equal to the message, and the workaround runs.
\<close>

theorem createContainerAt_fallback_counterexample:
  "resp_text (conflict_response
                (internal_NSS_CREATE_CONTAINER_SPEC_NONCOMPLIANCE_DETECTION_ERROR_MESSAGE @ nl))
     \<noteq> internal_NSS_CREATE_CONTAINER_SPEC_NONCOMPLIANCE_DETECTION_ERROR_MESSAGE
   \<and> createContainerAt ref_env scripted_fetch ''https://x.pod/c''
       (start []
          [conflict_response
             (internal_NSS_CREATE_CONTAINER_SPEC_NONCOMPLIANCE_DETECTION_ERROR_MESSAGE @ nl),
           not_found_response, ok_response, ok_response, container_response])
     = (Inr 0,
        \<lparr>store = [dataset\<lparr>internal_changeLog := Some \<lparr>additions = [], deletions = []\<rparr>,
                          internal_resourceInfo :=
                            Some (internal_parseResourceInfo ref_env container_response)\<rparr>],
         sent = (''https://x.pod/c/'', create_container_request ref_env)
                # workaround_requests ''https://x.pod/c/'',
         world = []\<rparr>)"
proof -
  have "resp_text (conflict_response
                (internal_NSS_CREATE_CONTAINER_SPEC_NONCOMPLIANCE_DETECTION_ERROR_MESSAGE @ nl))
     \<noteq> internal_NSS_CREATE_CONTAINER_SPEC_NONCOMPLIANCE_DETECTION_ERROR_MESSAGE"
    by (simp add: conflict_response_def reply_def nl_def)
  then show ?thesis
    using scripted_workaround [OF nss_signature_newline conflict_unsuccessful] by (rule conjI)
qed

lemma deleteContainer_refused:
  assumes "\<not> endsWith (target_url c) ''/''"
  shows "\<exists>msg. deleteContainer fetch c s = (Inl (Error msg), s)"
  using assms by (simp add: deleteContainer_def isContainer_def Let_def)

lemma deleteContainer_sent:
  "sent (snd (deleteContainer fetch c s))
     = sent s @ (if endsWith (target_url c) ''/''
                 then [(target_url c,
                        \<lparr>req_method = ''DELETE'', req_headers = [], req_body = None\<rparr>)]
                 else [])"
proof (cases "endsWith (target_url c) ''/''")
  case False
  then show ?thesis
    using deleteContainer_refused [OF False, of fetch s] by auto
next
  case True
  let ?i = "\<lparr>req_method = ''DELETE'', req_headers = [], req_body = None\<rparr>"
  obtain res s1 where c: "config_fetch fetch (target_url c) ?i s = (res, s1)"
    by (cases "config_fetch fetch (target_url c) ?i s")
  have "sent s1 = sent s @ [(target_url c, ?i)]"
    using config_fetch_sent [of fetch "target_url c" ?i s] c by simp
  then show ?thesis
    using True unfolding deleteContainer_def isContainer_def Let_def c
    by (cases res) simp_all
qed

text \<open>
  C6: for a target whose URL does not end in a slash, \<open>deleteContainer\<close> fails
  with an \<open>Error\<close> and returns the state it was given: no request is sent and
  the world behind \<open>fetch\<close> is not touched. The call sends a DELETE, one, at the
  target's URL exactly when that URL ends in a slash.
\<close>

theorem deleteContainer_refuses:
  "(\<not> endsWith (target_url c) ''/'' \<longrightarrow>
      (\<exists>msg. deleteContainer fetch c s = (Inl (Error msg), s)))
   \<and> sent (snd (deleteContainer fetch c s))
       = sent s @ (if endsWith (target_url c) ''/''
                   then [(target_url c,
                          \<lparr>req_method = ''DELETE'', req_headers = [], req_body = None\<rparr>)]
                   else [])
   \<and> target_url c = (case c of Url u \<Rightarrow> u | WithResourceInfo ri \<Rightarrow> sourceIri ri)
   \<and> (endsWith (target_url c) ''/'' \<longleftrightarrow> target_url c \<noteq> [] \<and> last (target_url c) = CHR ''/'')"
proof -
  have e: "endsWith (target_url c) ''/'' \<longleftrightarrow> target_url c \<noteq> [] \<and> last (target_url c) = CHR ''/''"
    by (cases "target_url c" rule: rev_cases) (simp_all add: endsWith_def)
  show ?thesis
    using deleteContainer_refused [of c fetch s] deleteContainer_sent [of fetch c s] e
    by (simp add: target_url_def)
qed

text \<open>Scenario D: the target \<open>https://x/doc\<close>.\<close>

theorem deleteContainer_refuses_witness:
  "(\<exists>msg. deleteContainer scripted_fetch (Url ''https://x/doc'') (start [] [ok_response])
            = (Inl (Error msg), start [] [ok_response]))
   \<and> sent (snd (deleteContainer scripted_fetch (Url ''https://x/doc'') (start [] [ok_response])))
     = []"
proof -
  have n: "\<not> endsWith (target_url (Url ''https://x/doc'')) ''/''"
    by (simp add: target_url_def endsWith_def)
  show ?thesis
    using deleteContainer_refuses [of "Url ''https://x/doc''" scripted_fetch
                                      "start [] [ok_response]"] n
    by (simp add: start_def)
qed

end
